theory Spec2Isabelle
  imports Complex_Main
begin

section \<open>Fuel stop planning along a truck route\<close>

text \<open>
  A shallow embedding of \<^verbatim>\<open>route_planner/services/routing.py\<close> and of the endpoint in
  \<^verbatim>\<open>route_planner/views.py\<close>.

  Numbers: Python's \<^verbatim>\<open>float\<close> and \<^verbatim>\<open>Decimal\<close> values are both embedded as \<^typ>\<open>real\<close>.
  The planner is embedded twice. In the first embedding every arithmetic operation of the
  source is read as the exact operation; it serves the properties that do not turn on
  rounding. In the second one (the functions with the suffix \<open>_fp\<close>) every operation on
  floats is rounded to the nearest double, as Python computes it; it serves the properties
  that rounding decides. The text produced by \<^verbatim>\<open>str\<close> on a float and the 28 digit context
  of \<^verbatim>\<open>Decimal\<close> are outside of both.

  External collaborators (the GEOS geometry of a \<^verbatim>\<open>LineString\<close>, the spatial functions of
  the database, the polyline codec, the routing provider) are not code of the repository.
  They enter the embedding as values that the caller supplies: a line string carries its own
  \<open>project\<close> and \<open>interpolate\<close> functions, a station row arrives with the fraction
  that \<^verbatim>\<open>ST_LineLocatePoint\<close> computed for it, and so on.
\<close>

subsection \<open>Constants\<close>

definition RANGE_IN_MILES :: real where
  "RANGE_IN_MILES = 500"

definition MILES_PER_GALLON :: real where
  "MILES_PER_GALLON = 10"

definition SEARCH_RADIUS_IN_MILES :: real where
  "SEARCH_RADIUS_IN_MILES = 10"

definition SAFETY_MARGIN :: real where
  "SAFETY_MARGIN = 0.9"

definition MAX_TRAVERSIBLE_RANGE :: real where
  "MAX_TRAVERSIBLE_RANGE = RANGE_IN_MILES * SAFETY_MARGIN"

definition CACHE_TIMEOUT :: real where
  "CACHE_TIMEOUT = 3600"

definition METERS_PER_MILE :: real where
  "METERS_PER_MILE = 1609.34"

definition MILES_PER_DEGREE :: real where
  "MILES_PER_DEGREE = 69.0"

subsection \<open>Data\<close>

text \<open>A GEOS point is stored as \<open>(x, y)\<close>, that is (longitude, latitude).\<close>

type_synonym point = "real \<times> real"

text \<open>A coordinate pair of the service is \<open>(latitude, longitude)\<close>.\<close>

type_synonym coord = "real \<times> real"

text \<open>
  \<^verbatim>\<open>LineString\<close>: \<open>num_points\<close> is what \<^verbatim>\<open>len\<close> returns (a line string without points is
  falsy in Python), \<open>line_length\<close> is its \<^verbatim>\<open>length\<close> property (in degrees, the line has
  SRID 4326), \<open>project\<close> maps a point to the distance along the line of the location
  closest to it, \<open>interpolate\<close> maps a distance along the line to the point there.
\<close>

record line_string =
  num_points :: nat
  line_length :: real
  project :: "point \<Rightarrow> real"
  interpolate :: "real \<Rightarrow> point"

record RouteSegment =
  start_point :: coord
  end_point :: coord
  distance :: real
  polyline :: string

text \<open>
  The dataclass \<^verbatim>\<open>Route\<close>. Its fields \<^verbatim>\<open>distance\<close> and \<^verbatim>\<open>route_line\<close> carry the prefix
  \<open>Route_\<close> here, since the segment and the router have fields of the same names.
\<close>

record Route =
  segments :: "RouteSegment list"
  Route_distance :: real
  Route_route_line :: line_string

text \<open>
  The instance state of \<^verbatim>\<open>OptimalFuelRouter\<close>; \<open>route_line\<close> is \<^verbatim>\<open>None\<close> until a route has
  been fetched.
\<close>

record OptimalFuelRouter =
  origin :: coord
  destination :: coord
  route_segments :: "RouteSegment list"
  total_distance :: real
  route_line :: "line_string option"

text \<open>\<^verbatim>\<open>OptimalFuelRouter.__init__\<close>.\<close>

definition init_router :: "coord \<Rightarrow> coord \<Rightarrow> OptimalFuelRouter" where
  "init_router orig dest =
     \<lparr> origin = orig, destination = dest, route_segments = [], total_distance = 0,
       route_line = None \<rparr>"

text \<open>
  A row of the \<^verbatim>\<open>FuelStation\<close> table. The rows handed to the planner are annotated by the
  query with \<open>station_fraction\<close>, the value of \<^verbatim>\<open>ST_LineLocatePoint\<close>.
\<close>

record FuelStation =
  name :: string
  address :: string
  city :: string
  state :: string
  price_per_gallon_in_usd :: real
  location :: point

record AnnotatedStation = FuelStation +
  station_fraction :: real

record FuelStop =
  station :: string
  distance_from_start :: real
  coordinates :: coord
  gallons_to_fill :: real
  cost :: real

text \<open>The exceptions that the modelled code can raise, as values.\<close>

datatype py_error =
    ValidationError string
  | ZeroDivisionError
  | IndexError
  | KeyError
  | TypeError
  | ValueError

text \<open>
  How Python prints a point and a decimal is not part of the repository; the two
  functions are supplied by the caller.
\<close>

record formatting =
  str_point :: "point \<Rightarrow> string"
  str_decimal :: "real \<Rightarrow> string"

text \<open>\<^verbatim>\<open>FuelStation.__str__\<close> of models.py.\<close>

definition FuelStation_str :: "formatting \<Rightarrow> 'a FuelStation_scheme \<Rightarrow> string" where
  "FuelStation_str fmt s =
     name s @ '' - '' @ str_point fmt (location s) @ '' - ($''
       @ str_decimal fmt (price_per_gallon_in_usd s) @ ''/gal)''"

subsection \<open>The station query\<close>

text \<open>
  The station table and the two spatial functions of the database that the query uses:
  \<open>line_locate_point\<close> is \<^verbatim>\<open>ST_LineLocatePoint\<close>, \<open>distance_miles\<close> is the distance of a
  location from a line that the lookup \<^verbatim>\<open>distance_lte\<close> compares with the radius.
\<close>

record spatial_db =
  table_rows :: "FuelStation list"
  line_locate_point :: "line_string \<Rightarrow> point \<Rightarrow> real"
  distance_miles :: "line_string \<Rightarrow> point \<Rightarrow> real"

text \<open>The \<^verbatim>\<open>annotate\<close> clause of the query: a row with its fraction along the line.\<close>

definition annotate :: "spatial_db \<Rightarrow> line_string \<Rightarrow> FuelStation \<Rightarrow> AnnotatedStation" where
  "annotate db rl s =
     \<lparr> name = name s, address = address s, city = city s, state = state s,
       price_per_gallon_in_usd = price_per_gallon_in_usd s, location = location s,
       station_fraction = line_locate_point db rl (location s) \<rparr>"

text \<open>
  \<^verbatim>\<open>_find_stations_along_route\<close>: the rows of the table whose location is within the
  search radius of the route line, annotated, ordered by price. SQL leaves the order of
  rows of equal price open; the embedding keeps them in table order.
\<close>

definition find_stations_along_route :: "spatial_db \<Rightarrow> line_string \<Rightarrow> AnnotatedStation list" where
  "find_stations_along_route db rl =
     sort_key price_per_gallon_in_usd
       (map (annotate db rl)
         (filter (\<lambda>s. distance_miles db rl (location s) \<le> SEARCH_RADIUS_IN_MILES)
            (table_rows db)))"

subsection \<open>The greedy step\<close>

text \<open>\<^verbatim>\<open>_calculate_fuel_cost\<close>.\<close>

definition calculate_fuel_cost :: "real \<Rightarrow> real \<Rightarrow> real" where
  "calculate_fuel_cost gallons price_per_gallon = gallons * price_per_gallon"

text \<open>
  The \<^verbatim>\<open>for\<close> loop of \<^verbatim>\<open>_find_next_best_fuel_station\<close>: the first station of the list
  whose fraction is in the window, \<open>None\<close> when the loop ends without a \<^verbatim>\<open>break\<close>.
\<close>

fun first_in_window :: "real \<Rightarrow> real \<Rightarrow> AnnotatedStation list \<Rightarrow> AnnotatedStation option" where
  "first_in_window current_fraction target_fraction [] = None"
| "first_in_window current_fraction target_fraction (s # rest) =
     (if current_fraction < station_fraction s \<and> station_fraction s \<le> target_fraction
      then Some s
      else first_in_window current_fraction target_fraction rest)"

text \<open>
  \<^verbatim>\<open>_find_next_best_fuel_station\<close>; \<open>rl\<close> is \<^verbatim>\<open>self.route_line\<close> and \<open>total_miles\<close> is
  \<^verbatim>\<open>self.total_distance\<close>. The division by the length of the line raises
  \<^verbatim>\<open>ZeroDivisionError\<close> in Python when the line has length zero.
\<close>

definition find_next_best_fuel_station ::
  "formatting \<Rightarrow> line_string \<Rightarrow> real \<Rightarrow> point \<Rightarrow> real \<Rightarrow> real \<Rightarrow> AnnotatedStation list
     \<Rightarrow> py_error + (FuelStop \<times> point) option" where
  "find_next_best_fuel_station fmt rl total_miles current_point distance_covered
       remaining_distance stations_along_route =
     (if line_length rl = 0 then Inl ZeroDivisionError
      else
        let current_fraction = project rl current_point / line_length rl;
            target_distance = distance_covered + MAX_TRAVERSIBLE_RANGE;
            target_point = interpolate rl (target_distance / MILES_PER_DEGREE);
            target_fraction = project rl target_point / line_length rl
        in case first_in_window current_fraction target_fraction stations_along_route of
             None \<Rightarrow> Inr None
           | Some next_best_station \<Rightarrow>
               let distance_from_start =
                     (station_fraction next_best_station * line_length rl) * MILES_PER_DEGREE;
                   nearby_point_in_route =
                     interpolate rl (distance_from_start / MILES_PER_DEGREE);
                   remaining_distance_from_station = total_miles - distance_from_start;
                   remaining_fuel_at_station =
                     (RANGE_IN_MILES - (remaining_distance - remaining_distance_from_station))
                       / MILES_PER_GALLON;
                   gallons =
                     (if remaining_distance_from_station < RANGE_IN_MILES
                      then (remaining_distance_from_station / MILES_PER_GALLON)
                             - remaining_fuel_at_station
                      else (RANGE_IN_MILES / MILES_PER_GALLON) - remaining_fuel_at_station);
                   cost = calculate_fuel_cost gallons
                            (price_per_gallon_in_usd next_best_station)
               in Inr (Some
                    (\<lparr> station = FuelStation_str fmt next_best_station,
                       distance_from_start = distance_from_start,
                       coordinates = (snd (location next_best_station),
                                      fst (location next_best_station)),
                       gallons_to_fill = gallons,
                       cost = cost \<rparr>,
                     nearby_point_in_route)))"

subsection \<open>The planner\<close>

text \<open>
  The \<^verbatim>\<open>while\<close> loop of \<^verbatim>\<open>find_optimal_fuel_stops\<close>, with the loop variables as
  arguments. Nothing in the source bounds the number of iterations, so the result is an
  option: \<open>None\<close> stands for a loop that never ends.
\<close>

partial_function (option) fuel_stop_loop ::
  "formatting \<Rightarrow> line_string \<Rightarrow> real \<Rightarrow> AnnotatedStation list
     \<Rightarrow> point \<Rightarrow> real \<Rightarrow> FuelStop list \<Rightarrow> real
     \<Rightarrow> (py_error + FuelStop list \<times> real) option" where
  "fuel_stop_loop fmt rl total_miles stations_along_route
       current_point distance_covered optimal_stops total_refill_cost =
     (if \<not> distance_covered < total_miles
      then Some (Inr (optimal_stops, total_refill_cost))
      else if total_miles - distance_covered < MAX_TRAVERSIBLE_RANGE
      then Some (Inr (optimal_stops, total_refill_cost))
      else
        case find_next_best_fuel_station fmt rl total_miles current_point distance_covered
               (total_miles - distance_covered) stations_along_route of
          Inl e \<Rightarrow> Some (Inl e)
        | Inr None \<Rightarrow>
            Some (Inl (ValidationError ''Not enough fuel stations found along the route''))
        | Inr (Some (next_best_fuel_station, nearby_point_in_route)) \<Rightarrow>
            fuel_stop_loop fmt rl total_miles stations_along_route
              nearby_point_in_route
              (distance_from_start next_best_fuel_station)
              (optimal_stops @ [next_best_fuel_station])
              (total_refill_cost + cost next_best_fuel_station))"

text \<open>
  \<^verbatim>\<open>find_optimal_fuel_stops\<close>. The test \<^verbatim>\<open>not self.route_line\<close> holds for \<^verbatim>\<open>None\<close> and for
  a line without points.
\<close>

definition find_optimal_fuel_stops ::
  "formatting \<Rightarrow> spatial_db \<Rightarrow> OptimalFuelRouter \<Rightarrow> (py_error + FuelStop list \<times> real) option" where
  "find_optimal_fuel_stops fmt db self =
     (case route_line self of
        None \<Rightarrow> Some (Inl (ValidationError ''Route not found''))
      | Some rl \<Rightarrow>
          if num_points rl = 0 then Some (Inl (ValidationError ''Route not found''))
          else
            let stations_along_route = find_stations_along_route db rl
            in fuel_stop_loop fmt rl (total_distance self) stations_along_route
                 (interpolate rl 0) 0 [] 0)"

subsection \<open>Fetching the route\<close>

text \<open>
  The body of a reply of the routing provider, as \<^verbatim>\<open>response.json()\<close> returns it: Python
  dictionaries, lists, strings, numbers, booleans and \<^verbatim>\<open>None\<close>.
\<close>

datatype json =
    JNull
  | JBool bool
  | JNum real
  | JStr string
  | JArr "json list"
  | JObj "(string \<times> json) list"

text \<open>\<^verbatim>\<open>j[k]\<close> for a string \<open>k\<close>: only a dictionary can be indexed with a string.\<close>

definition subscript_key :: "json \<Rightarrow> string \<Rightarrow> py_error + json" where
  "subscript_key j k =
     (case j of
        JObj kvs \<Rightarrow> (case map_of kvs k of None \<Rightarrow> Inl KeyError | Some v \<Rightarrow> Inr v)
      | _ \<Rightarrow> Inl TypeError)"

text \<open>
  \<^verbatim>\<open>j[0]\<close>: the first element of a list or the first character of a string,
  \<^verbatim>\<open>IndexError\<close> when these are empty; a dictionary decoded from JSON has no key \<open>0\<close>.
\<close>

definition subscript_zero :: "json \<Rightarrow> py_error + json" where
  "subscript_zero j =
     (case j of
        JArr xs \<Rightarrow> (case xs of [] \<Rightarrow> Inl IndexError | x # _ \<Rightarrow> Inr x)
      | JStr cs \<Rightarrow> (case cs of [] \<Rightarrow> Inl IndexError | c # _ \<Rightarrow> Inr (JStr [c]))
      | JObj kvs \<Rightarrow> Inl KeyError
      | _ \<Rightarrow> Inl TypeError)"

text \<open>
  \<^verbatim>\<open>for section in j\<close>: the elements of a list, the keys of a dictionary, the characters
  of a string; anything else is not iterable.
\<close>

definition iterate :: "json \<Rightarrow> py_error + json list" where
  "iterate j =
     (case j of
        JArr xs \<Rightarrow> Inr xs
      | JObj kvs \<Rightarrow> Inr (map (\<lambda>kv. JStr (fst kv)) kvs)
      | JStr cs \<Rightarrow> Inr (map (\<lambda>c. JStr [c]) cs)
      | _ \<Rightarrow> Inl TypeError)"

text \<open>\<^verbatim>\<open>j / METERS_PER_MILE\<close>: defined on numbers (a Python boolean is a number).\<close>

definition to_miles :: "json \<Rightarrow> py_error + real" where
  "to_miles j =
     (case j of
        JNum x \<Rightarrow> Inr (x / METERS_PER_MILE)
      | JBool b \<Rightarrow> Inr ((if b then 1 else 0) / METERS_PER_MILE)
      | _ \<Rightarrow> Inl TypeError)"

text \<open>
  The body of the loop over the sections up to the construction of the segment.
  \<open>decode\<close> stands for \<^verbatim>\<open>flexpolyline.decode\<close> behind \<^verbatim>\<open>_decode_polyline\<close>; it
  returns the coordinate pairs of the polyline or raises. A polyline that is not a string
  cannot be decoded.
\<close>

definition process_section ::
  "(string \<Rightarrow> py_error + coord list) \<Rightarrow> json
     \<Rightarrow> py_error + RouteSegment \<times> coord list \<times> real" where
  "process_section decode section =
     (case subscript_key section ''polyline'' of
        Inl e \<Rightarrow> Inl e
      | Inr pl \<Rightarrow>
     (case pl of
        JStr p \<Rightarrow>
          (case decode p of
             Inl e \<Rightarrow> Inl e
           | Inr section_coords \<Rightarrow>
          (case subscript_key section ''summary'' of
             Inl e \<Rightarrow> Inl e
           | Inr summary \<Rightarrow>
          (case subscript_key summary ''length'' of
             Inl e \<Rightarrow> Inl e
           | Inr len \<Rightarrow>
          (case to_miles len of
             Inl e \<Rightarrow> Inl e
           | Inr miles \<Rightarrow>
          (case section_coords of
             [] \<Rightarrow> Inl IndexError
           | c # cs \<Rightarrow>
               Inr (\<lparr> start_point = c, end_point = last (c # cs), distance = miles,
                       polyline = p \<rparr>,
                    section_coords, miles))))))
      | _ \<Rightarrow> Inl TypeError))"

text \<open>
  The loop over the sections. It appends to \<^verbatim>\<open>self.route_segments\<close> as it goes, so the
  segments appended before an exception stay on the router: the result carries the error,
  if any, together with the three accumulators (\<open>coords\<close> is the list \<^verbatim>\<open>coordinates\<close>).
\<close>

fun sections_loop ::
  "(string \<Rightarrow> py_error + coord list) \<Rightarrow> json list \<Rightarrow> RouteSegment list \<Rightarrow> coord list \<Rightarrow> real
     \<Rightarrow> py_error option \<times> RouteSegment list \<times> coord list \<times> real" where
  "sections_loop decode [] segs coords current_distance =
     (None, segs, coords, current_distance)"
| "sections_loop decode (section # rest) segs coords current_distance =
     (case process_section decode section of
        Inl e \<Rightarrow> (Some e, segs, coords, current_distance)
      | Inr (seg, section_coords, miles) \<Rightarrow>
          sections_loop decode rest (segs @ [seg]) (coords @ section_coords)
            (current_distance + miles))"

text \<open>
  What \<^verbatim>\<open>requests.get\<close> does: it raises a \<^verbatim>\<open>RequestException\<close> (no connection, timeout),
  or it returns a response with a status code and a body; the body is \<open>None\<close> when it is
  not JSON text.
\<close>

datatype http_reply =
    Raises_RequestException
  | Response nat "json option"

text \<open>
  The cache of the framework, shared by all requests, and a counter of the calls made to
  the routing provider. An entry is stored with the time at which it expires.

  The key of the source is the string \<^verbatim>\<open>route_{lat}_{lng}_{lat}_{lng}\<close>. The text of a float
  has no underscore and different floats have different texts, so the string determines the
  four numbers; the embedding takes the two coordinate pairs themselves as the key.
\<close>

type_synonym cache_key = "coord \<times> coord"

record world =
  cache :: "cache_key \<rightharpoonup> Route \<times> real"
  provider_calls :: nat

definition cache_key_of :: "coord \<Rightarrow> coord \<Rightarrow> cache_key" where
  "cache_key_of orig dest = (orig, dest)"

text \<open>\<^verbatim>\<open>cache.get\<close>: the stored value, unless there is none or it has expired.\<close>

definition cache_get :: "world \<Rightarrow> real \<Rightarrow> cache_key \<Rightarrow> Route option" where
  "cache_get w now k =
     (case cache w k of
        None \<Rightarrow> None
      | Some (v, expires) \<Rightarrow> if expires \<le> now then None else Some v)"

text \<open>\<^verbatim>\<open>cache.set\<close> with a timeout in seconds.\<close>

definition cache_set :: "world \<Rightarrow> real \<Rightarrow> cache_key \<Rightarrow> Route \<Rightarrow> real \<Rightarrow> world" where
  "cache_set w now k v timeout = w\<lparr> cache := (cache w)(k \<mapsto> (v, now + timeout)) \<rparr>"

text \<open>
  \<^verbatim>\<open>route_data["routes"][0]["sections"]\<close>, made iterable for the loop.
\<close>

definition sections_of :: "json \<Rightarrow> py_error + json list" where
  "sections_of route_data =
     (case subscript_key route_data ''routes'' of
        Inl e \<Rightarrow> Inl e
      | Inr routes \<Rightarrow>
     (case subscript_zero routes of
        Inl e \<Rightarrow> Inl e
      | Inr route \<Rightarrow>
     (case subscript_key route ''sections'' of
        Inl e \<Rightarrow> Inl e
      | Inr sections \<Rightarrow> iterate sections)))"

text \<open>
  \<^verbatim>\<open>get_route\<close>. The arguments \<open>decode\<close> and \<open>LineString\<close> are the polyline codec and the
  constructor of the geometry, \<open>now\<close> is the time of the call, \<open>reply\<close> is what the
  provider does if it is called. The result is the returned boolean or the exception
  that leaves the method, with the router and the world after the call.

  The \<^verbatim>\<open>except\<close> clause catches \<^verbatim>\<open>RequestException\<close> only: the exception of
  \<^verbatim>\<open>requests.get\<close>, the \<^verbatim>\<open>HTTPError\<close> of \<^verbatim>\<open>raise_for_status\<close> for the status codes 400 to
  599, and the decoding error of \<^verbatim>\<open>response.json()\<close>. A cached route is always truthy.
\<close>

definition get_route ::
  "(string \<Rightarrow> py_error + coord list) \<Rightarrow> (point list \<Rightarrow> py_error + line_string) \<Rightarrow> real
     \<Rightarrow> http_reply \<Rightarrow> OptimalFuelRouter \<Rightarrow> world
     \<Rightarrow> (py_error + bool) \<times> OptimalFuelRouter \<times> world" where
  "get_route decode LineString now reply self w =
     (let key = cache_key_of (origin self) (destination self) in
      case cache_get w now key of
        Some cached_route \<Rightarrow>
          (Inr True,
           self\<lparr> route_segments := segments cached_route,
                 total_distance := Route_distance cached_route,
                 route_line := Some (Route_route_line cached_route) \<rparr>,
           w)
      | None \<Rightarrow>
          let w1 = w\<lparr> provider_calls := Suc (provider_calls w) \<rparr> in
          (case reply of
             Raises_RequestException \<Rightarrow> (Inr False, self, w1)
           | Response status body \<Rightarrow>
               if 400 \<le> status \<and> status < 600 then (Inr False, self, w1)
               else
                 (case body of
                    None \<Rightarrow> (Inr False, self, w1)
                  | Some route_data \<Rightarrow>
                      (case sections_of route_data of
                         Inl e \<Rightarrow> (Inl e, self, w1)
                       | Inr sections \<Rightarrow>
                           (case sections_loop decode sections (route_segments self) [] 0 of
                              (Some e, segs, coords, current_distance) \<Rightarrow>
                                (Inl e, self\<lparr> route_segments := segs \<rparr>, w1)
                            | (None, segs, coords, current_distance) \<Rightarrow>
                                (case LineString (map (\<lambda>c. (snd c, fst c)) coords) of
                                   Inl e \<Rightarrow>
                                     (Inl e,
                                      self\<lparr> route_segments := segs,
                                            total_distance := current_distance \<rparr>,
                                      w1)
                                 | Inr line \<Rightarrow>
                                     (Inr True,
                                      self\<lparr> route_segments := segs,
                                            total_distance := current_distance,
                                            route_line := Some line \<rparr>,
                                      cache_set w1 now key
                                        \<lparr> segments = segs,
                                          Route_distance = current_distance,
                                          Route_route_line = line \<rparr>
                                        CACHE_TIMEOUT)))))))"

subsection \<open>The endpoint\<close>

text \<open>One entry of \<^verbatim>\<open>fuel_stops\<close> in the response, and the response.\<close>

record stop_entry =
  entry_station :: string
  entry_distance_from_start :: real
  entry_coordinates :: coord
  entry_gallons_needed :: real
  entry_cost :: string

datatype http_response =
    JsonError string nat
  | JsonData real string "stop_entry list" "string list"

definition stop_entry_of :: "formatting \<Rightarrow> FuelStop \<Rightarrow> stop_entry" where
  "stop_entry_of fmt stop =
     \<lparr> entry_station = station stop,
       entry_distance_from_start = distance_from_start stop,
       entry_coordinates = coordinates stop,
       entry_gallons_needed = gallons_to_fill stop,
       entry_cost = ''$ '' @ str_decimal fmt (cost stop) \<rparr>"

text \<open>
  \<^verbatim>\<open>get_optimal_route\<close> of views.py. Each of the four request parameters is given as the result
  of \<^verbatim>\<open>float(request.GET.get(...))\<close>: \<open>None\<close> when that raises \<^verbatim>\<open>TypeError\<close> or
  \<^verbatim>\<open>ValueError\<close>. The view catches \<^verbatim>\<open>ValidationError\<close> only; any other exception leaves
  it. The result is \<open>None\<close> when the planner does not return.
\<close>

definition get_optimal_route ::
  "formatting \<Rightarrow> spatial_db \<Rightarrow> (string \<Rightarrow> py_error + coord list)
     \<Rightarrow> (point list \<Rightarrow> py_error + line_string) \<Rightarrow> real \<Rightarrow> http_reply \<Rightarrow> world
     \<Rightarrow> real option \<Rightarrow> real option \<Rightarrow> real option \<Rightarrow> real option
     \<Rightarrow> ((py_error + http_response) \<times> world) option" where
  "get_optimal_route fmt db decode LineString now reply w
       origin_lat origin_lng dest_lat dest_lng =
     (case (origin_lat, origin_lng, dest_lat, dest_lng) of
        (Some olat, Some olng, Some dlat, Some dlng) \<Rightarrow>
          (case get_route decode LineString now reply (init_router (olat, olng) (dlat, dlng)) w of
             (Inl e, router, w') \<Rightarrow> Some (Inl e, w')
           | (Inr ok, router, w') \<Rightarrow>
               if \<not> ok then Some (Inr (JsonError ''Could not calculate route'' 400), w')
               else
                 (case find_optimal_fuel_stops fmt db router of
                    None \<Rightarrow> None
                  | Some (Inl e) \<Rightarrow>
                      (case e of
                         ValidationError message \<Rightarrow> Some (Inr (JsonError message 400), w')
                       | _ \<Rightarrow> Some (Inl e, w'))
                  | Some (Inr (optimal_stops, total_refill_cost)) \<Rightarrow>
                      Some (Inr (JsonData (total_distance router)
                                   (str_decimal fmt total_refill_cost)
                                   (map (stop_entry_of fmt) optimal_stops)
                                   (map polyline (route_segments router))),
                            w')))
      | _ \<Rightarrow> Some (Inr (JsonError ''Invalid coordinates provided'' 400), w))"

subsection \<open>Double precision\<close>

text \<open>
  A double is embedded as the real number it denotes. \<open>to_double\<close> rounds a real to the
  nearest double, ties to the even mantissa: a double other than zero is a mantissa of 53
  bits, \<open>2 ^ 52 \<le> m < 2 ^ 53\<close>, times a power of two. Overflow, subnormal numbers,
  infinities and NaN are not modelled; the numbers of the planner stay far inside the
  normal range.
\<close>

fun bit_length :: "nat \<Rightarrow> nat" where
  "bit_length n = (if n = 0 then 0 else Suc (bit_length (n div 2)))"

declare bit_length.simps [simp del]

text \<open>The exponent \<open>e\<close> with \<open>2 ^ e \<le> x < 2 ^ (e + 1)\<close>, for \<open>x > 0\<close>.\<close>

definition binary_exponent :: "real \<Rightarrow> int" where
  "binary_exponent x =
     (if 1 \<le> x then int (bit_length (nat \<lfloor>x\<rfloor>)) - 1
      else - int (bit_length (nat (\<lceil>1 / x\<rceil> - 1))))"

definition pow2 :: "int \<Rightarrow> real" where
  "pow2 e = (if 0 \<le> e then 2 ^ nat e else 1 / 2 ^ nat (- e))"

definition round_half_even :: "real \<Rightarrow> int" where
  "round_half_even m =
     (let r = \<lfloor>m\<rfloor>; d = m - of_int r
      in if d < 1 / 2 then r else if 1 / 2 < d then r + 1 else if even r then r else r + 1)"

definition to_double :: "real \<Rightarrow> real" where
  "to_double x =
     (if x = 0 then 0
      else
        let e = binary_exponent \<bar>x\<bar> - 52
        in sgn x * (of_int (round_half_even (\<bar>x\<bar> / pow2 e)) * pow2 e))"

text \<open>Python's \<^verbatim>\<open>+\<close>, \<^verbatim>\<open>-\<close>, \<^verbatim>\<open>*\<close> and \<^verbatim>\<open>/\<close> on floats: the exact result, rounded.\<close>

definition float_add :: "real \<Rightarrow> real \<Rightarrow> real" where
  "float_add x y = to_double (x + y)"

definition float_sub :: "real \<Rightarrow> real \<Rightarrow> real" where
  "float_sub x y = to_double (x - y)"

definition float_mul :: "real \<Rightarrow> real \<Rightarrow> real" where
  "float_mul x y = to_double (x * y)"

definition float_div :: "real \<Rightarrow> real \<Rightarrow> real" where
  "float_div x y = to_double (x / y)"

subsection \<open>The planner in double precision\<close>

text \<open>
  \<^verbatim>\<open>MAX_TRAVERSIBLE_RANGE = RANGE_IN_MILES * SAFETY_MARGIN\<close>, where the literal \<^verbatim>\<open>0.9\<close> is the
  double nearest to it. The product is the double 450.
\<close>

definition MAX_TRAVERSIBLE_RANGE_fp :: real where
  "MAX_TRAVERSIBLE_RANGE_fp = float_mul RANGE_IN_MILES (to_double SAFETY_MARGIN)"

text \<open>
  \<^verbatim>\<open>_find_next_best_fuel_station\<close> with every operation on floats rounded. The comparisons
  are exact, as they are in Python. \<open>decimal_of\<close> stands for \<^verbatim>\<open>Decimal(str(gallons))\<close>, the
  decimal number that Python prints for the float; the product with the price is a
  product of decimals.
\<close>

definition find_next_best_fuel_station_fp ::
  "(real \<Rightarrow> real) \<Rightarrow> formatting \<Rightarrow> line_string \<Rightarrow> real \<Rightarrow> point \<Rightarrow> real \<Rightarrow> real
     \<Rightarrow> AnnotatedStation list \<Rightarrow> py_error + (FuelStop \<times> point) option" where
  "find_next_best_fuel_station_fp decimal_of fmt rl total_miles current_point distance_covered
       remaining_distance stations_along_route =
     (if line_length rl = 0 then Inl ZeroDivisionError
      else
        let current_fraction = float_div (project rl current_point) (line_length rl);
            target_distance = float_add distance_covered MAX_TRAVERSIBLE_RANGE_fp;
            target_point = interpolate rl (float_div target_distance MILES_PER_DEGREE);
            target_fraction = float_div (project rl target_point) (line_length rl)
        in case first_in_window current_fraction target_fraction stations_along_route of
             None \<Rightarrow> Inr None
           | Some next_best_station \<Rightarrow>
               let distance_from_start =
                     float_mul (float_mul (station_fraction next_best_station) (line_length rl))
                       MILES_PER_DEGREE;
                   nearby_point_in_route =
                     interpolate rl (float_div distance_from_start MILES_PER_DEGREE);
                   remaining_distance_from_station = float_sub total_miles distance_from_start;
                   remaining_fuel_at_station =
                     float_div
                       (float_sub RANGE_IN_MILES
                          (float_sub remaining_distance remaining_distance_from_station))
                       MILES_PER_GALLON;
                   gallons =
                     (if remaining_distance_from_station < RANGE_IN_MILES
                      then float_sub (float_div remaining_distance_from_station MILES_PER_GALLON)
                             remaining_fuel_at_station
                      else float_sub (float_div RANGE_IN_MILES MILES_PER_GALLON)
                             remaining_fuel_at_station);
                   cost = calculate_fuel_cost (decimal_of gallons)
                            (price_per_gallon_in_usd next_best_station)
               in Inr (Some
                    (\<lparr> station = FuelStation_str fmt next_best_station,
                       distance_from_start = distance_from_start,
                       coordinates = (snd (location next_best_station),
                                      fst (location next_best_station)),
                       gallons_to_fill = gallons,
                       cost = cost \<rparr>,
                     nearby_point_in_route)))"

text \<open>
  The \<^verbatim>\<open>while\<close> loop of \<^verbatim>\<open>find_optimal_fuel_stops\<close> with the subtraction rounded; the
  total cost is a sum of decimals. \<open>None\<close> stands for a loop that never ends.
\<close>

partial_function (option) fuel_stop_loop_fp ::
  "(real \<Rightarrow> real) \<Rightarrow> formatting \<Rightarrow> line_string \<Rightarrow> real \<Rightarrow> AnnotatedStation list
     \<Rightarrow> point \<Rightarrow> real \<Rightarrow> FuelStop list \<Rightarrow> real
     \<Rightarrow> (py_error + FuelStop list \<times> real) option" where
  "fuel_stop_loop_fp decimal_of fmt rl total_miles stations_along_route
       current_point distance_covered optimal_stops total_refill_cost =
     (if \<not> distance_covered < total_miles
      then Some (Inr (optimal_stops, total_refill_cost))
      else if float_sub total_miles distance_covered < MAX_TRAVERSIBLE_RANGE_fp
      then Some (Inr (optimal_stops, total_refill_cost))
      else
        case find_next_best_fuel_station_fp decimal_of fmt rl total_miles current_point
               distance_covered (float_sub total_miles distance_covered)
               stations_along_route of
          Inl e \<Rightarrow> Some (Inl e)
        | Inr None \<Rightarrow>
            Some (Inl (ValidationError ''Not enough fuel stations found along the route''))
        | Inr (Some (next_best_fuel_station, nearby_point_in_route)) \<Rightarrow>
            fuel_stop_loop_fp decimal_of fmt rl total_miles stations_along_route
              nearby_point_in_route
              (distance_from_start next_best_fuel_station)
              (optimal_stops @ [next_best_fuel_station])
              (total_refill_cost + cost next_best_fuel_station))"

text \<open>\<^verbatim>\<open>find_optimal_fuel_stops\<close> around that loop.\<close>

definition find_optimal_fuel_stops_fp ::
  "(real \<Rightarrow> real) \<Rightarrow> formatting \<Rightarrow> spatial_db \<Rightarrow> OptimalFuelRouter
     \<Rightarrow> (py_error + FuelStop list \<times> real) option" where
  "find_optimal_fuel_stops_fp decimal_of fmt db self =
     (case route_line self of
        None \<Rightarrow> Some (Inl (ValidationError ''Route not found''))
      | Some rl \<Rightarrow>
          if num_points rl = 0 then Some (Inl (ValidationError ''Route not found''))
          else
            let stations_along_route = find_stations_along_route db rl
            in fuel_stop_loop_fp decimal_of fmt rl (total_distance self) stations_along_route
                 (interpolate rl 0) 0 [] 0)"

subsection \<open>Notions used in the statements\<close>

text \<open>
  The two bounds of the window of \<^verbatim>\<open>_find_next_best_fuel_station\<close>, as the source computes
  them from the current point and from the distance covered.
\<close>

definition current_fraction_of :: "line_string \<Rightarrow> point \<Rightarrow> real" where
  "current_fraction_of rl current_point = project rl current_point / line_length rl"

definition target_fraction_of :: "line_string \<Rightarrow> real \<Rightarrow> real" where
  "target_fraction_of rl distance_covered =
     project rl (interpolate rl ((distance_covered + MAX_TRAVERSIBLE_RANGE) / MILES_PER_DEGREE))
       / line_length rl"

definition in_window :: "line_string \<Rightarrow> point \<Rightarrow> real \<Rightarrow> AnnotatedStation \<Rightarrow> bool" where
  "in_window rl current_point distance_covered s \<longleftrightarrow>
     current_fraction_of rl current_point < station_fraction s \<and>
     station_fraction s \<le> target_fraction_of rl distance_covered"

text \<open>
  The stops that one run of the loop appends, iteration by iteration: the loop is left on
  the empty list, and every stop is the result of the greedy step at the state that the
  stop before it has left.
\<close>

fun stop_chain ::
  "formatting \<Rightarrow> line_string \<Rightarrow> real \<Rightarrow> AnnotatedStation list \<Rightarrow> point \<Rightarrow> real
     \<Rightarrow> FuelStop list \<Rightarrow> bool" where
  "stop_chain fmt rl total_miles stations current_point distance_covered [] =
     (\<not> distance_covered < total_miles \<or>
      total_miles - distance_covered < MAX_TRAVERSIBLE_RANGE)"
| "stop_chain fmt rl total_miles stations current_point distance_covered (s # rest) =
     (distance_covered < total_miles \<and>
      \<not> total_miles - distance_covered < MAX_TRAVERSIBLE_RANGE \<and>
      find_next_best_fuel_station fmt rl total_miles current_point distance_covered
          (total_miles - distance_covered) stations
        = Inr (Some (s, interpolate rl (distance_from_start s / MILES_PER_DEGREE))) \<and>
      stop_chain fmt rl total_miles stations
        (interpolate rl (distance_from_start s / MILES_PER_DEGREE)) (distance_from_start s) rest)"

subsection \<open>Sample inputs\<close>

text \<open>
  A route line along the x axis from \<open>(0, 0)\<close> to \<open>(len, 0)\<close>, with the projection and
  the interpolation of a straight line.
\<close>

definition straight_line :: "real \<Rightarrow> line_string" where
  "straight_line len =
     \<lparr> num_points = 2, line_length = len,
       project = (\<lambda>p. max 0 (min (fst p) len)),
       interpolate = (\<lambda>d. (max 0 (min d len), 0)) \<rparr>"

definition plain_fmt :: formatting where
  "plain_fmt = \<lparr> str_point = (\<lambda>p. ''POINT''), str_decimal = (\<lambda>d. ''0.00'') \<rparr>"

text \<open>A station row on the x axis, at \<open>x\<close> degrees from the origin.\<close>

definition station_row :: "string \<Rightarrow> real \<Rightarrow> real \<Rightarrow> FuelStation" where
  "station_row n price x =
     \<lparr> name = n, address = [], city = [], state = [],
       price_per_gallon_in_usd = price, location = (x, 0) \<rparr>"

text \<open>
  A database that locates a point on a line as the line itself projects it, and that
  measures the distance from the x axis.
\<close>

definition flat_db :: "FuelStation list \<Rightarrow> spatial_db" where
  "flat_db rows =
     \<lparr> table_rows = rows,
       line_locate_point = (\<lambda>rl p. project rl p / line_length rl),
       distance_miles = (\<lambda>rl p. \<bar>snd p\<bar> * MILES_PER_DEGREE) \<rparr>"

text \<open>A router that holds a straight route of \<open>miles\<close> miles (\<open>miles / 69\<close> degrees).\<close>

definition straight_router :: "real \<Rightarrow> OptimalFuelRouter" where
  "straight_router miles =
     \<lparr> origin = (0, 0), destination = (0, miles / 69), route_segments = [],
       total_distance = miles, route_line = Some (straight_line (miles / 69)) \<rparr>"

text \<open>
  A trip of 1000 miles with three stations: at mile 200 for 3.00, at mile 600 for 3.50 and
  at mile 300 for 4.00.
\<close>

definition sample_rows :: "FuelStation list" where
  "sample_rows =
     [station_row ''C'' 4 (300 / 69), station_row ''A'' 3 (200 / 69),
      station_row ''B'' 3.5 (600 / 69)]"

text \<open>
  A codec that decodes every polyline to the two ends of the straight route of 1000 miles,
  a constructor of straight lines, and replies of the provider.
\<close>

definition sample_decode :: "string \<Rightarrow> py_error + coord list" where
  "sample_decode p = Inr [(0, 0), (0, 1000 / 69)]"

definition sample_LineString :: "point list \<Rightarrow> py_error + line_string" where
  "sample_LineString pts =
     (if length pts < 2 then Inl ValueError else Inr (straight_line (fst (last pts))))"

definition sample_route_data :: json where
  "sample_route_data =
     JObj [(''routes'',
       JArr [JObj [(''sections'',
         JArr [JObj [(''polyline'', JStr ''BFoz5xJ67i1B''),
                     (''summary'', JObj [(''length'', JNum 1609340)])]])]])]"

definition empty_route_data :: json where
  "empty_route_data = JObj [(''routes'', JArr [])]"

definition empty_world :: world where
  "empty_world = \<lparr> cache = Map.empty, provider_calls = 0 \<rparr>"

text \<open>
  The fill formula in the words of the specification, with the tank range of 500 miles and
  the fuel economy of 10 miles per gallon written out.
\<close>

definition spec_remaining_fuel_at_station_gallons :: "real \<Rightarrow> real \<Rightarrow> real" where
  "spec_remaining_fuel_at_station_gallons remaining_to_destination
       remaining_distance_from_station =
     (500 - (remaining_to_destination - remaining_distance_from_station)) / 10"

definition spec_gallons_to_fill :: "real \<Rightarrow> real \<Rightarrow> real" where
  "spec_gallons_to_fill remaining_to_destination remaining_distance_from_station =
     (if remaining_distance_from_station < 500
      then remaining_distance_from_station / 10
             - spec_remaining_fuel_at_station_gallons remaining_to_destination
                 remaining_distance_from_station
      else 500 / 10
             - spec_remaining_fuel_at_station_gallons remaining_to_destination
                 remaining_distance_from_station)"

text \<open>
  Every stop of a list is filled by that formula, where the remaining distance to the
  destination is measured from the stop before it (from \<open>position\<close> for the first).
\<close>

fun filled_as_specified :: "real \<Rightarrow> real \<Rightarrow> FuelStop list \<Rightarrow> bool" where
  "filled_as_specified total_miles position [] = True"
| "filled_as_specified total_miles position (s # rest) =
     (gallons_to_fill s =
        spec_gallons_to_fill (total_miles - position) (total_miles - distance_from_start s) \<and>
      filled_as_specified total_miles (distance_from_start s) rest)"

text \<open>The two stops of the sample trip.\<close>

definition sample_stops :: "FuelStop list" where
  "sample_stops =
     [\<lparr> station = ''A - POINT - ($0.00/gal)'', distance_from_start = 200,
         coordinates = (0, 200 / 69), gallons_to_fill = 20, cost = 60 \<rparr>,
      \<lparr> station = ''B - POINT - ($0.00/gal)'', distance_from_start = 600,
         coordinates = (0, 600 / 69), gallons_to_fill = 30, cost = 105 \<rparr>]"

text \<open>The segment and the route that the sample reply of the provider yields.\<close>

definition sample_segment :: RouteSegment where
  "sample_segment = \<lparr> start_point = (0, 0), end_point = (0, 1000 / 69), distance = 1000,
      polyline = ''BFoz5xJ67i1B'' \<rparr>"

definition sample_route :: Route where
  "sample_route = \<lparr> segments = [sample_segment], Route_distance = 1000,
      Route_route_line = straight_line (1000 / 69) \<rparr>"

text \<open>
  The geometry library on a route line of one segment, from \<open>(0, 0)\<close> to \<open>(len, 0)\<close>
  with \<open>len > 0\<close>, in double precision. The point at distance \<open>d\<close> is the start for
  \<open>d \<le> 0\<close> and the end for \<open>d \<ge> len\<close>; in between it is the point of the segment at
  the fraction \<open>d / len\<close>, that is \<open>x = (len - 0) * (d / len) + 0\<close>. The location of a
  point \<open>p\<close> is the projection factor of \<open>p\<close> on the segment,
  \<open>r = ((p.x - 0) * dx + (p.y - 0) * dy) / (dx * dx + dy * dy)\<close> with \<open>dx = len\<close> and
  \<open>dy = 0\<close> (0 at the start point, 1 at the end point), turned into a distance: the start
  for \<open>r \<le> 0\<close>, \<open>0 + r * len\<close> for \<open>r \<le> 1\<close>, the end beyond.
\<close>

definition segment_interpolate :: "real \<Rightarrow> real \<Rightarrow> point" where
  "segment_interpolate len d =
     (if d \<le> 0 then (0, 0)
      else if len \<le> d then (len, 0)
      else
        let fraction = float_div d len
        in if fraction \<le> 0 then (0, 0)
           else if 1 \<le> fraction then (len, 0)
           else (float_add (float_mul (float_sub len 0) fraction) 0, 0))"

definition segment_projection_factor :: "real \<Rightarrow> point \<Rightarrow> real" where
  "segment_projection_factor len p =
     (if p = (0, 0) then 0
      else if p = (len, 0) then 1
      else
        let dx = float_sub len 0;
            len2 = float_add (float_mul dx dx) (float_mul 0 0)
        in float_div
             (float_add (float_mul (float_sub (fst p) 0) dx) (float_mul (float_sub (snd p) 0) 0))
             len2)"

definition segment_project :: "real \<Rightarrow> point \<Rightarrow> real" where
  "segment_project len p =
     (let r = segment_projection_factor len p
      in if r \<le> 0 then 0
         else if r \<le> 1 then float_add 0 (float_mul r len)
         else float_add 0 len)"

definition segment_line :: "real \<Rightarrow> line_string" where
  "segment_line len =
     \<lparr> num_points = 2, line_length = len,
       project = segment_project len,
       interpolate = segment_interpolate len \<rparr>"

text \<open>A router that holds a route of \<open>miles\<close> miles along that line.\<close>

definition segment_router :: "real \<Rightarrow> real \<Rightarrow> OptimalFuelRouter" where
  "segment_router miles len =
     \<lparr> origin = (0, 0), destination = (0, len), route_segments = [],
       total_distance = miles, route_line = Some (segment_line len) \<rparr>"

text \<open>
  A database that reports for every row the fraction that is listed with it, and that
  finds every row within the search radius.
\<close>

definition listed_db :: "(FuelStation \<times> real) list \<Rightarrow> spatial_db" where
  "listed_db listing =
     \<lparr> table_rows = map fst listing,
       line_locate_point =
         (\<lambda>rl p. case find (\<lambda>row. location (fst row) = p) listing of
                    None \<Rightarrow> 0
                  | Some row \<Rightarrow> snd row),
       distance_miles = (\<lambda>rl p. 0) \<rparr>"

text \<open>
  Two stations on a line of 30 degrees: \<open>S\<close> at the fraction 0.18 for 3.00 and \<open>T\<close> at
  the fraction 10 / 30 for 3.50, the fractions being the doubles that Python reads.
\<close>

definition two_stations :: "(FuelStation \<times> real) list" where
  "two_stations =
     [(station_row ''S'' 3 5.4, to_double 0.18),
      (station_row ''T'' 3.5 10, float_div 10 30)]"

text \<open>
  One station on a line of \<open>860 / 69\<close> degrees (the double 12.46376811594203), at the
  fraction 0.5232558139534884.
\<close>

definition far_station :: "(FuelStation \<times> real) list" where
  "far_station = [(station_row ''S'' 3 6.5, 294566836092547 / 562949953421312)]"

text \<open>The rows that the station query returns for these listings.\<close>

definition S_row :: AnnotatedStation where
  "S_row = \<lparr> name = ''S'', address = [], city = [], state = [],
       price_per_gallon_in_usd = 3, location = (5.4, 0),
       station_fraction = 3242591731706757 / 18014398509481984 \<rparr>"

definition T_row :: AnnotatedStation where
  "T_row = \<lparr> name = ''T'', address = [], city = [], state = [],
       price_per_gallon_in_usd = 3.5, location = (10, 0),
       station_fraction = 6004799503160661 / 18014398509481984 \<rparr>"

definition far_row :: AnnotatedStation where
  "far_row = \<lparr> name = ''S'', address = [], city = [], state = [],
       price_per_gallon_in_usd = 3, location = (6.5, 0),
       station_fraction = 294566836092547 / 562949953421312 \<rparr>"

text \<open>
  One station on a line of 22.166914369345207 degrees, at the fraction
  0.29421050768589363, for a route of 450.00000000000006 miles (the double after 450).
\<close>

definition late_station :: "(FuelStation \<times> real) list" where
  "late_station = [(station_row ''S'' 3 6.5, 1325006332782675 / 4503599627370496)]"

definition late_row :: AnnotatedStation where
  "late_row = \<lparr> name = ''S'', address = [], city = [], state = [],
       price_per_gallon_in_usd = 3, location = (6.5, 0),
       station_fraction = 1325006332782675 / 4503599627370496 \<rparr>"

section \<open>Properties\<close>

subsection \<open>The greedy step, case by case\<close>

lemma first_in_window_Some:
  "first_in_window c t xs = Some s \<Longrightarrow>
     \<exists>pre post. xs = pre @ s # post \<and> c < station_fraction s \<and> station_fraction s \<le> t \<and>
       (\<forall>x\<in>set pre. \<not> (c < station_fraction x \<and> station_fraction x \<le> t))"
proof (induction xs)
  case Nil
  then show ?case by simp
next
  case (Cons a xs)
  show ?case
  proof (cases "c < station_fraction a \<and> station_fraction a \<le> t")
    case True
    with Cons.prems have "a = s" by simp
    with True show ?thesis by (intro exI[of _ "[]"] exI[of _ xs]) simp
  next
    case False
    with Cons.prems have "first_in_window c t xs = Some s" by auto
    from Cons.IH[OF this] obtain pre post where
      "xs = pre @ s # post" "c < station_fraction s" "station_fraction s \<le> t"
      "\<forall>x\<in>set pre. \<not> (c < station_fraction x \<and> station_fraction x \<le> t)" by blast
    with False show ?thesis by (intro exI[of _ "a # pre"] exI[of _ post]) auto
  qed
qed

lemma first_in_window_None:
  "first_in_window c t xs = None \<longleftrightarrow>
     (\<forall>x\<in>set xs. \<not> (c < station_fraction x \<and> station_fraction x \<le> t))"
  by (induction xs) auto

lemma find_next_zero:
  "line_length rl = 0 \<Longrightarrow>
   find_next_best_fuel_station fmt rl total_miles cp cov rem stations = Inl ZeroDivisionError"
  by (simp add: find_next_best_fuel_station_def)

lemma find_next_None:
  "line_length rl \<noteq> 0 \<Longrightarrow>
   first_in_window (current_fraction_of rl cp) (target_fraction_of rl cov) stations = None \<Longrightarrow>
   find_next_best_fuel_station fmt rl total_miles cp cov rem stations = Inr None"
  by (simp add: find_next_best_fuel_station_def current_fraction_of_def target_fraction_of_def Let_def)

lemma find_next_Some:
  "line_length rl \<noteq> 0 \<Longrightarrow>
   first_in_window (current_fraction_of rl cp) (target_fraction_of rl cov) stations = Some st \<Longrightarrow>
   \<exists>s. find_next_best_fuel_station fmt rl total_miles cp cov rem stations
      = Inr (Some (s, interpolate rl (distance_from_start s / MILES_PER_DEGREE))) \<and>
    station s = FuelStation_str fmt st \<and>
    distance_from_start s = (station_fraction st * line_length rl) * MILES_PER_DEGREE \<and>
    coordinates s = (snd (location st), fst (location st)) \<and>
    gallons_to_fill s =
      (if total_miles - distance_from_start s < RANGE_IN_MILES
       then (total_miles - distance_from_start s) / MILES_PER_GALLON
              - (RANGE_IN_MILES - (rem - (total_miles - distance_from_start s))) / MILES_PER_GALLON
       else RANGE_IN_MILES / MILES_PER_GALLON
              - (RANGE_IN_MILES - (rem - (total_miles - distance_from_start s))) / MILES_PER_GALLON) \<and>
    cost s = gallons_to_fill s * price_per_gallon_in_usd st"
  by (simp add: find_next_best_fuel_station_def current_fraction_of_def target_fraction_of_def Let_def
        calculate_fuel_cost_def)

lemma find_next_SomeD:
  assumes "find_next_best_fuel_station fmt rl total_miles cp cov rem stations = Inr (Some (s, pt))"
  shows "line_length rl \<noteq> 0"
    and "pt = interpolate rl (distance_from_start s / MILES_PER_DEGREE)"
    and "\<exists>st. first_in_window (current_fraction_of rl cp) (target_fraction_of rl cov) stations = Some st \<and>
      station s = FuelStation_str fmt st \<and>
      distance_from_start s = (station_fraction st * line_length rl) * MILES_PER_DEGREE \<and>
      coordinates s = (snd (location st), fst (location st)) \<and>
      gallons_to_fill s =
        (if total_miles - distance_from_start s < RANGE_IN_MILES
         then (total_miles - distance_from_start s) / MILES_PER_GALLON
                - (RANGE_IN_MILES - (rem - (total_miles - distance_from_start s))) / MILES_PER_GALLON
         else RANGE_IN_MILES / MILES_PER_GALLON
                - (RANGE_IN_MILES - (rem - (total_miles - distance_from_start s))) / MILES_PER_GALLON) \<and>
      cost s = gallons_to_fill s * price_per_gallon_in_usd st"
proof -
  show nz: "line_length rl \<noteq> 0"
    using assms find_next_zero[of rl fmt total_miles cp cov rem stations] by auto
  obtain st where st: "first_in_window (current_fraction_of rl cp) (target_fraction_of rl cov) stations = Some st"
    using assms find_next_None[OF nz, of cp cov stations fmt total_miles rem]
    by (cases "first_in_window (current_fraction_of rl cp) (target_fraction_of rl cov) stations") auto
  from find_next_Some[OF nz st, of fmt total_miles rem] assms
  show "pt = interpolate rl (distance_from_start s / MILES_PER_DEGREE)" by auto
  from find_next_Some[OF nz st, of fmt total_miles rem] assms st
  show "\<exists>st. first_in_window (current_fraction_of rl cp) (target_fraction_of rl cov) stations = Some st \<and>
      station s = FuelStation_str fmt st \<and>
      distance_from_start s = (station_fraction st * line_length rl) * MILES_PER_DEGREE \<and>
      coordinates s = (snd (location st), fst (location st)) \<and>
      gallons_to_fill s =
        (if total_miles - distance_from_start s < RANGE_IN_MILES
         then (total_miles - distance_from_start s) / MILES_PER_GALLON
                - (RANGE_IN_MILES - (rem - (total_miles - distance_from_start s))) / MILES_PER_GALLON
         else RANGE_IN_MILES / MILES_PER_GALLON
                - (RANGE_IN_MILES - (rem - (total_miles - distance_from_start s))) / MILES_PER_GALLON) \<and>
      cost s = gallons_to_fill s * price_per_gallon_in_usd st"
    by (intro exI[of _ st]) auto
qed

subsection \<open>The loop, unfolded once, and the stops of a run\<close>

lemma loop_done:
  "\<not> cov < total_miles \<or> total_miles - cov < MAX_TRAVERSIBLE_RANGE \<Longrightarrow>
   fuel_stop_loop fmt rl total_miles stations cp cov stops acc = Some (Inr (stops, acc))"
  by (subst fuel_stop_loop.simps) auto

lemma loop_error:
  "cov < total_miles \<Longrightarrow> \<not> total_miles - cov < MAX_TRAVERSIBLE_RANGE \<Longrightarrow>
   find_next_best_fuel_station fmt rl total_miles cp cov (total_miles - cov) stations = Inl e \<Longrightarrow>
   fuel_stop_loop fmt rl total_miles stations cp cov stops acc = Some (Inl e)"
  by (subst fuel_stop_loop.simps) simp

lemma loop_no_station:
  "cov < total_miles \<Longrightarrow> \<not> total_miles - cov < MAX_TRAVERSIBLE_RANGE \<Longrightarrow>
   find_next_best_fuel_station fmt rl total_miles cp cov (total_miles - cov) stations = Inr None \<Longrightarrow>
   fuel_stop_loop fmt rl total_miles stations cp cov stops acc
     = Some (Inl (ValidationError ''Not enough fuel stations found along the route''))"
  by (subst fuel_stop_loop.simps) simp

lemma loop_step:
  "cov < total_miles \<Longrightarrow> \<not> total_miles - cov < MAX_TRAVERSIBLE_RANGE \<Longrightarrow>
   find_next_best_fuel_station fmt rl total_miles cp cov (total_miles - cov) stations
     = Inr (Some (s, pt)) \<Longrightarrow>
   fuel_stop_loop fmt rl total_miles stations cp cov stops acc
     = fuel_stop_loop fmt rl total_miles stations pt (distance_from_start s) (stops @ [s])
         (acc + cost s)"
  by (subst fuel_stop_loop.simps) simp

lemma fuel_stop_loop_chain:
  assumes "fuel_stop_loop fmt rl total_miles stations cp cov stops acc = Some r"
  shows "\<forall>ss c. r = Inr (ss, c) \<longrightarrow>
     (\<exists>new. ss = stops @ new \<and> c = acc + sum_list (map cost new) \<and>
       stop_chain fmt rl total_miles stations cp cov new)"
proof (rule fuel_stop_loop.raw_induct[where P = "\<lambda>fmt rl total_miles stations cp cov stops acc r.
     \<forall>ss c. r = Inr (ss, c) \<longrightarrow>
     (\<exists>new. ss = stops @ new \<and> c = acc + sum_list (map cost new) \<and>
       stop_chain fmt rl total_miles stations cp cov new)", OF _ assms])
  fix loop :: "formatting \<Rightarrow> line_string \<Rightarrow> real \<Rightarrow> AnnotatedStation list
     \<Rightarrow> point \<Rightarrow> real \<Rightarrow> FuelStop list \<Rightarrow> real
     \<Rightarrow> (py_error + FuelStop list \<times> real) option"
  fix fmt rl total_miles stations cp cov stops acc
  fix r :: "py_error + FuelStop list \<times> real"
  assume IH: "\<And>fmt rl total_miles stations cp cov stops acc r.
     loop fmt rl total_miles stations cp cov stops acc = Some r \<Longrightarrow>
     \<forall>ss c. r = Inr (ss, c) \<longrightarrow>
     (\<exists>new. ss = stops @ new \<and> c = acc + sum_list (map cost new) \<and>
       stop_chain fmt rl total_miles stations cp cov new)"
  assume body: "(if \<not> cov < total_miles
      then Some (Inr (stops, acc))
      else if total_miles - cov < MAX_TRAVERSIBLE_RANGE
      then Some (Inr (stops, acc))
      else
        case find_next_best_fuel_station fmt rl total_miles cp cov
               (total_miles - cov) stations of
          Inl e \<Rightarrow> Some (Inl e)
        | Inr None \<Rightarrow>
            Some (Inl (ValidationError ''Not enough fuel stations found along the route''))
        | Inr (Some (next_best_fuel_station, nearby_point_in_route)) \<Rightarrow>
            loop fmt rl total_miles stations
              nearby_point_in_route
              (distance_from_start next_best_fuel_station)
              (stops @ [next_best_fuel_station])
              (acc + cost next_best_fuel_station)) = Some r"
  show "\<forall>ss c. r = Inr (ss, c) \<longrightarrow>
     (\<exists>new. ss = stops @ new \<and> c = acc + sum_list (map cost new) \<and>
       stop_chain fmt rl total_miles stations cp cov new)"
  proof (intro allI impI)
    fix ss c assume r: "r = Inr (ss, c)"
    show "\<exists>new. ss = stops @ new \<and> c = acc + sum_list (map cost new) \<and>
       stop_chain fmt rl total_miles stations cp cov new"
    proof (cases "\<not> cov < total_miles \<or> total_miles - cov < MAX_TRAVERSIBLE_RANGE")
      case True
      with body r have "ss = stops \<and> c = acc" by (simp split: if_splits)
      with True show ?thesis by (intro exI[of _ "[]"]) simp
    next
      case False
      then have nt: "cov < total_miles" "\<not> total_miles - cov < MAX_TRAVERSIBLE_RANGE" by auto
      show ?thesis
      proof (cases "find_next_best_fuel_station fmt rl total_miles cp cov (total_miles - cov) stations")
        case (Inl e)
        with body nt r show ?thesis by simp
      next
        case (Inr opt)
        show ?thesis
        proof (cases opt)
          case None
          with Inr body nt r show ?thesis by simp
        next
          case (Some sp)
          obtain s pt where sp: "sp = (s, pt)" by (cases sp)
          with Some Inr have fn:
            "find_next_best_fuel_station fmt rl total_miles cp cov (total_miles - cov) stations
               = Inr (Some (s, pt))" by simp
          with body nt have rec:
            "loop fmt rl total_miles stations pt (distance_from_start s) (stops @ [s])
               (acc + cost s) = Some r" by simp
          from IH[OF rec] r obtain new where
            new: "ss = (stops @ [s]) @ new" "c = (acc + cost s) + sum_list (map cost new)"
                 "stop_chain fmt rl total_miles stations pt (distance_from_start s) new" by blast
          from find_next_SomeD(2)[OF fn]
          have pt: "pt = interpolate rl (distance_from_start s / MILES_PER_DEGREE)" .
          from new fn pt nt show ?thesis
            by (intro exI[of _ "s # new"]) simp
        qed
      qed
    qed
  qed
qed



subsection \<open>The sample trip\<close>

lemmas kdefs = RANGE_IN_MILES_def MILES_PER_GALLON_def SAFETY_MARGIN_def MAX_TRAVERSIBLE_RANGE_def
  MILES_PER_DEGREE_def SEARCH_RADIUS_IN_MILES_def

lemma sample_stations:
  "find_stations_along_route (flat_db sample_rows) (straight_line (1000 / 69)) =
     [annotate (flat_db sample_rows) (straight_line (1000 / 69)) (station_row ''A'' 3 (200 / 69)),
      annotate (flat_db sample_rows) (straight_line (1000 / 69)) (station_row ''B'' 3.5 (600 / 69)),
      annotate (flat_db sample_rows) (straight_line (1000 / 69)) (station_row ''C'' 4 (300 / 69))]"
  by (simp add: find_stations_along_route_def flat_db_def sample_rows_def station_row_def
        annotate_def kdefs)

lemma sample_run:
  "find_optimal_fuel_stops plain_fmt (flat_db sample_rows) (straight_router 1000)
     = Some (Inr (sample_stops, 165))"
  unfolding find_optimal_fuel_stops_def straight_router_def
  by (simp add: sample_stations Let_def, simp add: straight_line_def  fuel_stop_loop.simps find_next_best_fuel_station_def
     annotate_def flat_db_def station_row_def kdefs plain_fmt_def FuelStation_str_def
     calculate_fuel_cost_def sample_stops_def)

subsection \<open>Results of the planner\<close>

lemma find_optimal_run:
  assumes "find_optimal_fuel_stops fmt db self = Some (Inr (stops, total_cost))"
  shows "\<exists>rl. route_line self = Some rl \<and> num_points rl \<noteq> 0 \<and>
           total_cost = sum_list (map cost stops) \<and>
           stop_chain fmt rl (total_distance self) (find_stations_along_route db rl)
             (interpolate rl 0) 0 stops"
proof (cases "route_line self")
  case None
  with assms show ?thesis by (simp add: find_optimal_fuel_stops_def)
next
  case (Some rl)
  show ?thesis
  proof (cases "num_points rl = 0")
    case True
    with Some assms show ?thesis by (simp add: find_optimal_fuel_stops_def)
  next
    case False
    with Some assms have run:
      "fuel_stop_loop fmt rl (total_distance self) (find_stations_along_route db rl)
         (interpolate rl 0) 0 [] 0 = Some (Inr (stops, total_cost))"
      by (simp add: find_optimal_fuel_stops_def)
    from fuel_stop_loop_chain[OF run] Some False show ?thesis by simp
  qed
qed

lemma chain_filled:
  "stop_chain fmt rl total_miles stations cp cov new \<Longrightarrow> filled_as_specified total_miles cov new"
proof (induction new arbitrary: cp cov)
  case Nil
  show ?case by simp
next
  case (Cons s rest)
  then have fn: "find_next_best_fuel_station fmt rl total_miles cp cov (total_miles - cov) stations
        = Inr (Some (s, interpolate rl (distance_from_start s / MILES_PER_DEGREE)))"
    and rest: "stop_chain fmt rl total_miles stations
        (interpolate rl (distance_from_start s / MILES_PER_DEGREE)) (distance_from_start s) rest"
    by simp_all
  from find_next_SomeD(3)[OF fn] have
    "gallons_to_fill s =
       spec_gallons_to_fill (total_miles - cov) (total_miles - distance_from_start s)"
    by (auto simp: spec_gallons_to_fill_def spec_remaining_fuel_at_station_gallons_def
          RANGE_IN_MILES_def MILES_PER_GALLON_def)
  with Cons.IH[OF rest] show ?case by simp
qed

text \<open>
  Claim C10. The total refill cost that \<^verbatim>\<open>find_optimal_fuel_stops\<close> returns is the sum of the
  costs of the stops it returns, and it is zero when there is no stop.
\<close>

theorem total_refill_cost_is_sum:
  "find_optimal_fuel_stops fmt db self = Some (Inr (stops, total_cost)) \<Longrightarrow>
     total_cost = sum_list (map cost stops) \<and> (stops = [] \<longrightarrow> total_cost = 0)"
  using find_optimal_run[of fmt db self stops total_cost] by auto

theorem total_refill_cost_is_sum_witness:
  "find_optimal_fuel_stops plain_fmt (flat_db sample_rows) (straight_router 1000)
     = Some (Inr (sample_stops, 165)) \<and>
   (165 :: real) = sum_list (map cost sample_stops)"
  using total_refill_cost_is_sum[OF sample_run] sample_run by simp

text \<open>
  Claim C2. Every stop that the planner returns is filled by the formula of the
  specification: the remaining fuel at the station is
  \<open>(500 - (remaining_to_destination - remaining_distance_from_station)) / 10\<close>, with the
  tank range of 500 miles, and the gallons to fill are
  \<open>remaining_distance_from_station / 10\<close> minus that fuel when the station is less than 500
  miles from the destination, \<open>500 / 10\<close> minus that fuel otherwise.
\<close>

theorem fill_formula:
  "find_optimal_fuel_stops fmt db self = Some (Inr (stops, total_cost)) \<Longrightarrow>
     filled_as_specified (total_distance self) 0 stops"
  using find_optimal_run[of fmt db self stops total_cost] chain_filled by blast

theorem fill_formula_witness:
  "find_optimal_fuel_stops plain_fmt (flat_db sample_rows) (straight_router 1000)
     = Some (Inr (sample_stops, 165)) \<and>
   filled_as_specified (total_distance (straight_router 1000)) 0 sample_stops"
  using fill_formula[OF sample_run] sample_run by simp


subsection \<open>The station selected by the greedy step\<close>

lemma sorted_stations:
  "sorted (map price_per_gallon_in_usd (find_stations_along_route db rl))"
  by (simp add: find_stations_along_route_def)

lemma sample_second_step:
  "find_next_best_fuel_station plain_fmt (straight_line (1000 / 69)) 1000 (200 / 69, 0) 200 800
     (find_stations_along_route (flat_db sample_rows) (straight_line (1000 / 69)))
   = Inr (Some (sample_stops ! 1, (600 / 69, 0)))"
  by (simp add: sample_stations, simp add: straight_line_def find_next_best_fuel_station_def
     annotate_def flat_db_def station_row_def kdefs plain_fmt_def FuelStation_str_def
     calculate_fuel_cost_def sample_stops_def)

text \<open>
  Claim C1. At an iteration of the planner that selects a station, with the candidates
  that the station query returns in ascending order of price: the station selected has its
  fraction in the window (strictly greater than the fraction of the current position, at
  most the fraction of the target, which is the current position plus the safe range of
  450 miles); it is the first station of the candidate order that is in the window, so no
  station in the window is cheaper; and the stop is built from that station.
\<close>

theorem cheapest_in_window_selected:
  assumes "find_next_best_fuel_station fmt rl total_miles cp cov rem
             (find_stations_along_route db rl) = Inr (Some (stop, pt))"
  shows "\<exists>st pre post.
           find_stations_along_route db rl = pre @ st # post \<and>
           in_window rl cp cov st \<and>
           (\<forall>x\<in>set pre. \<not> in_window rl cp cov x) \<and>
           (\<forall>x\<in>set (find_stations_along_route db rl).
              in_window rl cp cov x \<longrightarrow> price_per_gallon_in_usd st \<le> price_per_gallon_in_usd x) \<and>
           station stop = FuelStation_str fmt st \<and>
           distance_from_start stop = (station_fraction st * line_length rl) * MILES_PER_DEGREE \<and>
           coordinates stop = (snd (location st), fst (location st))"
proof -
  let ?cands = "find_stations_along_route db rl"
  from find_next_SomeD(3)[OF assms] obtain st where
    first: "first_in_window (current_fraction_of rl cp) (target_fraction_of rl cov) ?cands = Some st"
    and stop: "station stop = FuelStation_str fmt st"
      "distance_from_start stop = (station_fraction st * line_length rl) * MILES_PER_DEGREE"
      "coordinates stop = (snd (location st), fst (location st))"
    by blast
  from first_in_window_Some[OF first] obtain pre post where
    split: "?cands = pre @ st # post"
    and win: "in_window rl cp cov st"
    and before: "\<forall>x\<in>set pre. \<not> in_window rl cp cov x"
    unfolding in_window_def by blast
  have "sorted (map price_per_gallon_in_usd (pre @ st # post))"
    using sorted_stations[of db rl] split by simp
  then have after: "\<forall>x\<in>set post. price_per_gallon_in_usd st \<le> price_per_gallon_in_usd x"
    by (simp add: sorted_append)
  have cheapest: "\<forall>x\<in>set ?cands.
      in_window rl cp cov x \<longrightarrow> price_per_gallon_in_usd st \<le> price_per_gallon_in_usd x"
  proof (intro ballI impI)
    fix x assume "x \<in> set ?cands" and w: "in_window rl cp cov x"
    then have "x \<in> set pre \<or> x = st \<or> x \<in> set post" using split by auto
    with before after w show "price_per_gallon_in_usd st \<le> price_per_gallon_in_usd x" by auto
  qed
  from split win before cheapest stop show ?thesis by blast
qed

theorem cheapest_in_window_selected_witness:
  "find_next_best_fuel_station plain_fmt (straight_line (1000 / 69)) 1000 (200 / 69, 0) 200 800
     (find_stations_along_route (flat_db sample_rows) (straight_line (1000 / 69)))
   = Inr (Some (sample_stops ! 1, (600 / 69, 0))) \<and>
   (\<exists>st pre post.
      find_stations_along_route (flat_db sample_rows) (straight_line (1000 / 69))
        = pre @ st # post \<and>
      in_window (straight_line (1000 / 69)) (200 / 69, 0) 200 st \<and>
      (\<forall>x\<in>set pre. \<not> in_window (straight_line (1000 / 69)) (200 / 69, 0) 200 x) \<and>
      (\<forall>x\<in>set (find_stations_along_route (flat_db sample_rows) (straight_line (1000 / 69))).
         in_window (straight_line (1000 / 69)) (200 / 69, 0) 200 x
           \<longrightarrow> price_per_gallon_in_usd st \<le> price_per_gallon_in_usd x) \<and>
      station (sample_stops ! 1) = FuelStation_str plain_fmt st \<and>
      distance_from_start (sample_stops ! 1)
        = (station_fraction st * line_length (straight_line (1000 / 69))) * MILES_PER_DEGREE \<and>
      coordinates (sample_stops ! 1) = (snd (location st), fst (location st)))"
  using cheapest_in_window_selected[OF sample_second_step] sample_second_step by simp

subsection \<open>No station in the window\<close>

lemma one_station:
  "find_stations_along_route (flat_db [station_row ''A'' 3 (200 / 69)]) (straight_line (1000 / 69))
     = [annotate (flat_db [station_row ''A'' 3 (200 / 69)]) (straight_line (1000 / 69))
          (station_row ''A'' 3 (200 / 69))]"
  by (simp add: find_stations_along_route_def flat_db_def station_row_def annotate_def kdefs)

text \<open>
  Claim C7. At any iteration of the loop of \<^verbatim>\<open>find_optimal_fuel_stops\<close> that is not the last
  (the destination is still ahead and not within the safe range), if no candidate station
  has its fraction in the window, the planner raises the validation error "Not enough fuel
  stations found along the route". The stops and the cost accumulated so far, whatever they
  are, are not part of the result.
\<close>

theorem no_station_in_window_fails:
  assumes "distance_covered < total_miles"
    and "\<not> total_miles - distance_covered < MAX_TRAVERSIBLE_RANGE"
    and "line_length rl \<noteq> 0"
    and "\<forall>s\<in>set stations. \<not> in_window rl current_point distance_covered s"
  shows "fuel_stop_loop fmt rl total_miles stations current_point distance_covered
           optimal_stops total_refill_cost
         = Some (Inl (ValidationError ''Not enough fuel stations found along the route''))"
proof -
  from assms(4) have
    "first_in_window (current_fraction_of rl current_point)
       (target_fraction_of rl distance_covered) stations = None"
    by (simp add: first_in_window_None in_window_def)
  from find_next_None[OF assms(3) this]
  have "find_next_best_fuel_station fmt rl total_miles current_point distance_covered
          (total_miles - distance_covered) stations = Inr None" .
  from loop_no_station[OF assms(1,2) this] show ?thesis .
qed

theorem no_station_in_window_fails_witness:
  "fuel_stop_loop plain_fmt (straight_line (1000 / 69)) 1000
     (find_stations_along_route (flat_db [station_row ''A'' 3 (200 / 69)])
        (straight_line (1000 / 69)))
     (200 / 69, 0) 200 [sample_stops ! 0] 60
   = Some (Inl (ValidationError ''Not enough fuel stations found along the route''))"
proof -
  have 1: "(200 :: real) < 1000" by simp
  have 2: "\<not> (1000 :: real) - 200 < MAX_TRAVERSIBLE_RANGE" by (simp add: kdefs)
  have 3: "line_length (straight_line (1000 / 69)) \<noteq> 0" by (simp add: straight_line_def)
  have 4: "\<forall>s\<in>set (find_stations_along_route (flat_db [station_row ''A'' 3 (200 / 69)])
        (straight_line (1000 / 69))).
      \<not> in_window (straight_line (1000 / 69)) (200 / 69, 0) 200 s"
    by (simp add: one_station, simp add: in_window_def current_fraction_of_def
          target_fraction_of_def straight_line_def annotate_def flat_db_def station_row_def kdefs)
  from no_station_in_window_fails[OF 1 2 3 4] show ?thesis .
qed

subsection \<open>Routes at the safe range\<close>

lemma short_route_no_stops:
  assumes "route_line self = Some rl" and "num_points rl \<noteq> 0"
    and "total_distance self < MAX_TRAVERSIBLE_RANGE"
  shows "find_optimal_fuel_stops fmt db self = Some (Inr ([], 0))"
  using assms by (simp add: find_optimal_fuel_stops_def loop_done)

text \<open>
  Claim C3, at a route of exactly 450 miles. The claim says that a route of at most 450
  miles needs no stop. The loop leaves only when the remaining distance is strictly less
  than 450 miles, so at exactly 450 miles the planner looks for a station; with no station
  along the route it raises the validation error instead of returning the empty list.
\<close>

theorem stop_demanded_at_450_miles:
  "find_optimal_fuel_stops plain_fmt (flat_db []) (straight_router 450)
     = Some (Inl (ValidationError ''Not enough fuel stations found along the route''))"
  by (simp add: find_optimal_fuel_stops_def straight_router_def find_stations_along_route_def
        flat_db_def, simp add: straight_line_def fuel_stop_loop.simps
        find_next_best_fuel_station_def kdefs)

subsection \<open>The amount to fill\<close>

text \<open>
  Claim C4, at a route of 460 miles with one station at mile 100. The claim says that the
  gallons to fill are never negative. The stop is demanded by the safe range of 450 miles,
  the fill is computed from the tank range of 500 miles: the stop at mile 100 gets the fill
  of -4 gallons and the cost of -12.
\<close>

theorem negative_fill_at_460_miles:
  "find_optimal_fuel_stops plain_fmt (flat_db [station_row ''A'' 3 (100 / 69)])
     (straight_router 460)
   = Some (Inr ([\<lparr> station = ''A - POINT - ($0.00/gal)'', distance_from_start = 100,
                    coordinates = (0, 100 / 69), gallons_to_fill = - 4, cost = - 12 \<rparr>],
                - 12))"
  by (simp add: find_optimal_fuel_stops_def straight_router_def find_stations_along_route_def
        flat_db_def station_row_def annotate_def kdefs,
      simp add: straight_line_def fuel_stop_loop.simps find_next_best_fuel_station_def kdefs
        plain_fmt_def FuelStation_str_def calculate_fuel_cost_def)

subsection \<open>Fetching the route\<close>

lemma sample_sections:
  "sections_of sample_route_data =
     Inr [JObj [(''polyline'', JStr ''BFoz5xJ67i1B''),
                (''summary'', JObj [(''length'', JNum 1609340)])]]"
  by (simp add: sections_of_def sample_route_data_def subscript_key_def subscript_zero_def
        iterate_def)

lemma sample_fetch:
  "get_route sample_decode sample_LineString now (Response 200 (Some sample_route_data))
     (init_router (0, 0) (0, 1000 / 69)) empty_world
   = (Inr True,
      \<lparr> origin = (0, 0), destination = (0, 1000 / 69), route_segments = [sample_segment],
        total_distance = 1000, route_line = Some (straight_line (1000 / 69)) \<rparr>,
      \<lparr> cache = [((0, 0), (0, 1000 / 69)) \<mapsto> (sample_route, now + 3600)],
        provider_calls = 1 \<rparr>)"
  by (simp add: get_route_def cache_get_def cache_key_of_def empty_world_def init_router_def
        sample_sections process_section_def subscript_key_def to_miles_def sample_decode_def
        sample_LineString_def METERS_PER_MILE_def cache_set_def CACHE_TIMEOUT_def
        sample_segment_def sample_route_def)

lemma failure_keeps_cache:
  assumes "get_route decode LineString now reply self w = (res, self', w')"
    and "res \<noteq> Inr True"
  shows "cache w' = cache w"
  using assms
  by (auto simp: get_route_def Let_def cache_set_def
      split: option.splits http_reply.splits if_splits sum.splits prod.splits)

lemma transport_failures_return_False:
  assumes "cache_get w now (cache_key_of (origin self) (destination self)) = None"
    and "reply = Raises_RequestException \<or>
         (\<exists>status body. reply = Response status body \<and>
            ((400 \<le> status \<and> status < 600) \<or> body = None))"
  shows "get_route decode LineString now reply self w
           = (Inr False, self, w\<lparr> provider_calls := Suc (provider_calls w) \<rparr>)"
  using assms by (auto simp: get_route_def Let_def)


lemma fetch_stores:
  assumes miss: "cache_get w t0 (cache_key_of (origin self) (destination self)) = None"
    and fetch: "get_route decode LineString t0 reply self w = (Inr True, self1, w1)"
  shows "\<exists>line. route_line self1 = Some line \<and>
           cache w1 = (cache w)(cache_key_of (origin self) (destination self) \<mapsto>
             (\<lparr> segments = route_segments self1, Route_distance = total_distance self1,
                Route_route_line = line \<rparr>, t0 + CACHE_TIMEOUT)) \<and>
           provider_calls w1 = Suc (provider_calls w) \<and>
           origin self1 = origin self \<and> destination self1 = destination self"
  using assms
  by (auto simp: get_route_def Let_def cache_set_def
      split: option.splits http_reply.splits if_splits sum.splits prod.splits)

lemma hit_serves_cache:
  assumes "cache w (cache_key_of (origin self) (destination self)) = Some (r, expires)"
    and "now < expires"
  shows "get_route decode LineString now reply self w =
           (Inr True,
            self\<lparr> route_segments := segments r, total_distance := Route_distance r,
                  route_line := Some (Route_route_line r) \<rparr>,
            w)"
  using assms by (simp add: get_route_def cache_get_def)

text \<open>
  Claim C8, at a reply of the provider with status 200 and the body \<^verbatim>\<open>{"routes": []}\<close>. The
  claim says that an empty result makes \<^verbatim>\<open>get_route\<close> report that no route is available,
  without an unhandled error. The method catches the exceptions of the request only: on
  the empty list of routes the subscript \<^verbatim>\<open>[0]\<close> raises \<^verbatim>\<open>IndexError\<close>, which leaves the
  method. The cache is left as it was.
\<close>

theorem empty_routes_raise_IndexError:
  "get_route sample_decode sample_LineString now (Response 200 (Some empty_route_data))
     (init_router (0, 0) (0, 1000 / 69)) empty_world
   = (Inl IndexError, init_router (0, 0) (0, 1000 / 69),
      empty_world\<lparr> provider_calls := 1 \<rparr>)"
  by (simp add: get_route_def cache_get_def cache_key_of_def empty_world_def init_router_def
        sections_of_def empty_route_data_def subscript_key_def subscript_zero_def)

text \<open>
  Claim C9. After a call of \<^verbatim>\<open>get_route\<close> that missed the cache and fetched a route at time
  \<open>t0\<close>, every call for the same origin and destination at a time before \<open>t0 + 3600\<close>
  returns true with the segments, the distance and the line of the cached route, and
  leaves the world as it is: the provider is not called, whatever it would reply. Under
  every other pair of coordinates the cache reads as before the fetch.
\<close>

theorem cached_route_is_served:
  assumes miss: "cache_get w t0 (cache_key_of (origin self) (destination self)) = None"
    and fetch: "get_route decode LineString t0 reply self w = (Inr True, self1, w1)"
    and same: "origin self2 = origin self \<and> destination self2 = destination self"
    and ttl: "t < t0 + 3600"
  shows "get_route decode2 LineString2 t reply2 self2 w1 =
           (Inr True,
            self2\<lparr> route_segments := route_segments self1,
                   total_distance := total_distance self1,
                   route_line := route_line self1 \<rparr>,
            w1) \<and>
         (\<forall>orig dest. (orig, dest) \<noteq> (origin self, destination self) \<longrightarrow>
            cache_get w1 t (cache_key_of orig dest) = cache_get w t (cache_key_of orig dest))"
proof -
  from fetch_stores[OF miss fetch] obtain line where
    line: "route_line self1 = Some line"
    and stored: "cache w1 = (cache w)(cache_key_of (origin self) (destination self) \<mapsto>
             (\<lparr> segments = route_segments self1, Route_distance = total_distance self1,
                Route_route_line = line \<rparr>, t0 + CACHE_TIMEOUT))"
    by blast
  from stored same have entry:
    "cache w1 (cache_key_of (origin self2) (destination self2)) =
       Some (\<lparr> segments = route_segments self1, Route_distance = total_distance self1,
                Route_route_line = line \<rparr>, t0 + CACHE_TIMEOUT)"
    by simp
  from ttl have live: "t < t0 + CACHE_TIMEOUT" by (simp add: CACHE_TIMEOUT_def)
  from hit_serves_cache[OF entry live, of decode2 LineString2 reply2] line
  have first: "get_route decode2 LineString2 t reply2 self2 w1 =
           (Inr True,
            self2\<lparr> route_segments := route_segments self1,
                   total_distance := total_distance self1,
                   route_line := route_line self1 \<rparr>,
            w1)" by simp
  have second: "cache_get w1 t (cache_key_of orig dest) = cache_get w t (cache_key_of orig dest)"
    if "(orig, dest) \<noteq> (origin self, destination self)" for orig dest
    using that stored by (auto simp: cache_get_def cache_key_of_def)
  from first second show ?thesis by blast
qed

theorem cached_route_is_served_witness:
  "get_route sample_decode sample_LineString 0 (Response 200 (Some sample_route_data))
     (init_router (0, 0) (0, 1000 / 69)) empty_world
   = (Inr True,
      \<lparr> origin = (0, 0), destination = (0, 1000 / 69), route_segments = [sample_segment],
        total_distance = 1000, route_line = Some (straight_line (1000 / 69)) \<rparr>,
      \<lparr> cache = [((0, 0), (0, 1000 / 69)) \<mapsto> (sample_route, 0 + 3600)],
        provider_calls = 1 \<rparr>) \<and>
   get_route sample_decode sample_LineString 1800 Raises_RequestException
     (init_router (0, 0) (0, 1000 / 69))
     \<lparr> cache = [((0, 0), (0, 1000 / 69)) \<mapsto> (sample_route, 0 + 3600)], provider_calls = 1 \<rparr>
   = (Inr True,
      \<lparr> origin = (0, 0), destination = (0, 1000 / 69), route_segments = [sample_segment],
        total_distance = 1000, route_line = Some (straight_line (1000 / 69)) \<rparr>,
      \<lparr> cache = [((0, 0), (0, 1000 / 69)) \<mapsto> (sample_route, 0 + 3600)],
        provider_calls = 1 \<rparr>)"
proof -
  have miss: "cache_get empty_world 0
      (cache_key_of (origin (init_router (0, 0) (0, 1000 / 69)))
         (destination (init_router (0, 0) (0, 1000 / 69)))) = None"
    by (simp add: cache_get_def empty_world_def)
  have same: "origin (init_router (0, 0) (0, 1000 / 69)) = origin (init_router (0, 0) (0, 1000 / 69))
     \<and> destination (init_router (0, 0) (0, 1000 / 69))
         = destination (init_router (0, 0) (0, 1000 / 69))" by simp
  have ttl: "(1800 :: real) < 0 + 3600" by simp
  from cached_route_is_served[OF miss sample_fetch[of 0] same ttl,
      of sample_decode sample_LineString Raises_RequestException]
  have "get_route sample_decode sample_LineString 1800 Raises_RequestException
     (init_router (0, 0) (0, 1000 / 69))
     \<lparr> cache = [((0, 0), (0, 1000 / 69)) \<mapsto> (sample_route, 0 + 3600)], provider_calls = 1 \<rparr>
   = (Inr True,
      \<lparr> origin = (0, 0), destination = (0, 1000 / 69), route_segments = [sample_segment],
        total_distance = 1000, route_line = Some (straight_line (1000 / 69)) \<rparr>,
      \<lparr> cache = [((0, 0), (0, 1000 / 69)) \<mapsto> (sample_route, 0 + 3600)],
        provider_calls = 1 \<rparr>)"
    by (simp add: init_router_def)
  with sample_fetch[of 0] show ?thesis by simp
qed

subsection \<open>What the endpoint answers\<close>

text \<open>
  The endpoint turns a failed fetch and a validation error of the planner into an error
  response with status 400 that carries the message only; any other exception leaves it.
\<close>

lemma endpoint_reports_validation_error:
  assumes "get_route decode LineString now reply (init_router (a, b) (c, d)) w
             = (Inr True, router, w')"
    and "find_optimal_fuel_stops fmt db router = Some (Inl (ValidationError message))"
  shows "get_optimal_route fmt db decode LineString now reply w (Some a) (Some b) (Some c) (Some d)
           = Some (Inr (JsonError message 400), w')"
  using assms by (simp add: get_optimal_route_def)

lemma endpoint_lets_exception_through:
  assumes "get_route decode LineString now reply (init_router (a, b) (c, d)) w
             = (Inl e, router, w')"
  shows "get_optimal_route fmt db decode LineString now reply w (Some a) (Some b) (Some c) (Some d)
           = Some (Inl e, w')"
  using assms by (simp add: get_optimal_route_def)

lemma endpoint_no_route:
  assumes "get_route decode LineString now reply (init_router (a, b) (c, d)) w
             = (Inr False, router, w')"
  shows "get_optimal_route fmt db decode LineString now reply w (Some a) (Some b) (Some c) (Some d)
           = Some (Inr (JsonError ''Could not calculate route'' 400), w')"
  using assms by (simp add: get_optimal_route_def)

subsection \<open>Rounding to the nearest double\<close>

text \<open>
  The exponent that \<open>to_double\<close> uses is the binary exponent of its argument, and the
  mantissa is rounded to a nearest integer: \<open>to_double\<close> is within half a unit in the last
  place of its argument.
\<close>

lemma bit_length_bounds:
  "0 < n \<Longrightarrow> 2 ^ (bit_length n - 1) \<le> n \<and> n < 2 ^ bit_length n"
proof (induction n rule: bit_length.induct)
  case (1 n)
  show ?case
  proof (cases "n div 2 = 0")
    case True
    with 1(2) have "n = 1" by (simp add: div_eq_0_iff)
    then show ?thesis by (simp add: bit_length.simps)
  next
    case False
    then have pos: "0 < n div 2" by simp
    from 1(2) have n0: "n \<noteq> 0" by simp
    from 1(1)[OF n0 pos] have
      lo: "2 ^ (bit_length (n div 2) - 1) \<le> n div 2" and hi: "n div 2 < 2 ^ bit_length (n div 2)"
      by simp_all
    have bl: "bit_length n = Suc (bit_length (n div 2))"
      using n0 by (subst bit_length.simps) simp
    have blpos: "0 < bit_length (n div 2)"
      using pos by (subst bit_length.simps) simp
    from lo have "2 * 2 ^ (bit_length (n div 2) - 1) \<le> n" by arith
    moreover have "2 * 2 ^ (bit_length (n div 2) - 1) = (2::nat) ^ bit_length (n div 2)"
      using blpos by (cases "bit_length (n div 2)") simp_all
    ultimately have l: "2 ^ (bit_length n - 1) \<le> n" using bl by simp
    from hi have "n < 2 * 2 ^ bit_length (n div 2)" by arith
    with bl l show ?thesis by simp
  qed
qed

lemma binary_exponent_bounds:
  assumes "0 < x"
  shows "pow2 (binary_exponent x) \<le> x \<and> x < pow2 (binary_exponent x + 1)"
proof (cases "1 \<le> x")
  case True
  define n where "n = nat \<lfloor>x\<rfloor>"
  from True have npos: "0 < n" by (simp add: n_def)
  from True have nx: "real n \<le> x" "x < real n + 1" by (simp_all add: n_def)
  from bit_length_bounds[OF npos] have
    lo: "2 ^ (bit_length n - 1) \<le> n" and hi: "n < 2 ^ bit_length n" by simp_all
  have blpos: "0 < bit_length n" using npos by (subst bit_length.simps) simp
  have e: "binary_exponent x = int (bit_length n) - 1"
    using True by (simp add: binary_exponent_def n_def)
  have p1: "pow2 (binary_exponent x) = 2 ^ (bit_length n - 1)"
    using blpos by (simp add: e pow2_def nat_diff_distrib')
  have p2: "pow2 (binary_exponent x + 1) = 2 ^ bit_length n"
    by (simp add: e pow2_def)
  from lo have l: "(2::real) ^ (bit_length n - 1) \<le> real n"
    by (metis of_nat_le_iff of_nat_numeral of_nat_power)
  from hi have h: "real n + 1 \<le> 2 ^ bit_length n"
    by (metis Suc_leI of_nat_Suc of_nat_le_iff of_nat_numeral of_nat_power add.commute)
  from l nx have a: "2 ^ (bit_length n - 1) \<le> x" by linarith
  from h nx have b: "x < 2 ^ bit_length n" by linarith
  from a b show ?thesis unfolding p1 p2 by blast
next
  case False
  with assms have x1: "x < 1" by simp
  define y where "y = 1 / x"
  from assms x1 have y1: "1 < y" by (simp add: y_def)
  define m where "m = nat (\<lceil>y\<rceil> - 1)"
  from y1 have c2: "2 \<le> \<lceil>y\<rceil>" by linarith
  then have mpos: "0 < m" by (simp add: m_def)
  have my: "real m < y" "y \<le> real m + 1"
    using c2 by (simp_all add: m_def) linarith+
  from bit_length_bounds[OF mpos] have
    lo: "2 ^ (bit_length m - 1) \<le> m" and hi: "m < 2 ^ bit_length m" by simp_all
  have blpos: "0 < bit_length m" using mpos by (subst bit_length.simps) simp
  have e: "binary_exponent x = - int (bit_length m)"
    using False by (simp add: binary_exponent_def m_def y_def)
  have p1: "pow2 (binary_exponent x) = 1 / 2 ^ bit_length m"
    using blpos by (simp add: e pow2_def)
  have p2: "pow2 (binary_exponent x + 1) = 1 / 2 ^ (bit_length m - 1)"
  proof (cases "bit_length m = 1")
    case True
    then show ?thesis by (simp add: e pow2_def)
  next
    case False
    with blpos have "1 < bit_length m" by simp
    then show ?thesis by (simp add: e pow2_def nat_diff_distrib')
  qed
  from lo have l: "(2::real) ^ (bit_length m - 1) \<le> real m"
    by (metis of_nat_le_iff of_nat_numeral of_nat_power)
  from hi have h: "real m + 1 \<le> 2 ^ bit_length m"
    by (metis Suc_leI of_nat_Suc of_nat_le_iff of_nat_numeral of_nat_power add.commute)
  from my h have "y \<le> 2 ^ bit_length m" by linarith
  then have a: "1 / 2 ^ bit_length m \<le> x"
    using assms by (simp add: y_def field_simps)
  from my l have "2 ^ (bit_length m - 1) < y" by linarith
  then have b: "x < 1 / 2 ^ (bit_length m - 1)"
    using assms by (simp add: y_def field_simps)
  from a b show ?thesis unfolding p1 p2 by blast
qed

lemma round_half_even_near: "\<bar>of_int (round_half_even m) - m\<bar> \<le> 1 / 2"
  unfolding round_half_even_def Let_def by (auto split: if_splits)

lemma to_double_near:
  assumes "0 < x"
  shows "\<bar>to_double x - x\<bar> \<le> pow2 (binary_exponent x - 52) / 2"
proof -
  define p where "p = pow2 (binary_exponent x - 52)"
  have ppos: "0 < p" by (simp add: p_def pow2_def)
  define k where "k = round_half_even (x / p)"
  from assms have td: "to_double x = of_int k * p"
    by (simp add: to_double_def Let_def p_def k_def)
  from round_half_even_near[of "x / p"] have "\<bar>of_int k - x / p\<bar> \<le> 1 / 2"
    by (simp add: k_def)
  then have "\<bar>of_int k - x / p\<bar> * p \<le> (1 / 2) * p"
    using ppos by (intro mult_right_mono) simp_all
  moreover have "\<bar>of_int k - x / p\<bar> * p = \<bar>of_int k * p - x\<bar>"
    using ppos by (simp add: abs_mult_pos[symmetric] field_simps)
  ultimately show ?thesis by (simp add: td p_def)
qed

subsection \<open>The rounded operations of the sample runs\<close>

lemmas fp_defs = to_double_def binary_exponent_def bit_length.simps pow2_def round_half_even_def
  float_add_def float_sub_def float_mul_def float_div_def Let_def

lemmas segment_defs = segment_line_def segment_project_def segment_projection_factor_def
  segment_interpolate_def

text \<open>Every rounded operation that the runs below perform, with its result.\<close>

lemma fp_facts:
  "float_div 10 30 = (6004799503160661 / 18014398509481984)"
  "float_sub 1000 0 = 1000"
  "float_div 0 30 = 0"
  "float_add 0 450 = 450"
  "float_div 450 69 = (7342825479408417 / 1125899906842624)"
  "float_div (7342825479408417 / 1125899906842624) 30 = (7832347178035645 / 36028797018963968)"
  "float_sub 30 0 = 30"
  "float_mul 30 (7832347178035645 / 36028797018963968) = (7342825479408417 / 1125899906842624)"
  "float_add (7342825479408417 / 1125899906842624) 0 = (7342825479408417 / 1125899906842624)"
  "float_mul 30 30 = 900"
  "float_mul 0 0 = 0"
  "float_add 900 0 = 900"
  "float_sub (7342825479408417 / 1125899906842624) 0 = (7342825479408417 / 1125899906842624)"
  "float_mul (7342825479408417 / 1125899906842624) 30 = (6883898886945391 / 35184372088832)"
  "float_sub 0 0 = 0"
  "float_add (6883898886945391 / 35184372088832) 0 = (6883898886945391 / 35184372088832)"
  "float_div (6883898886945391 / 35184372088832) 900 = (7832347178035645 / 36028797018963968)"
  "float_mul (7832347178035645 / 36028797018963968) 30 = (7342825479408417 / 1125899906842624)"
  "float_add 0 (7342825479408417 / 1125899906842624) = (7342825479408417 / 1125899906842624)"
  "float_mul (3242591731706757 / 18014398509481984) 30 = (6079859496950169 / 1125899906842624)"
  "float_mul (6079859496950169 / 1125899906842624) 69 = (6554848520149401 / 17592186044416)"
  "float_div (6554848520149401 / 17592186044416) 69 = (6079859496950169 / 1125899906842624)"
  "float_div (6079859496950169 / 1125899906842624) 30 = (3242591731706757 / 18014398509481984)"
  "float_mul 30 (3242591731706757 / 18014398509481984) = (6079859496950169 / 1125899906842624)"
  "float_add (6079859496950169 / 1125899906842624) 0 = (6079859496950169 / 1125899906842624)"
  "float_sub 1000 (6554848520149401 / 17592186044416) = (1379667190533325 / 2199023255552)"
  "float_sub 1000 (1379667190533325 / 2199023255552) = (819356065018675 / 2199023255552)"
  "float_sub 500 (819356065018675 / 2199023255552) = (280155562757325 / 2199023255552)"
  "float_div (280155562757325 / 2199023255552) 10 = (56031112551465 / 4398046511104)"
  "float_div 500 10 = 50"
  "float_sub 50 (56031112551465 / 4398046511104) = (163871213003735 / 4398046511104)"
  "float_sub (6079859496950169 / 1125899906842624) 0 = (6079859496950169 / 1125899906842624)"
  "float_mul (6079859496950169 / 1125899906842624) 30 = (5699868278390783 / 35184372088832)"
  "float_add (5699868278390783 / 35184372088832) 0 = (5699868278390783 / 35184372088832)"
  "float_div (5699868278390783 / 35184372088832) 900 = (6485183463413513 / 36028797018963968)"
  "float_mul (6485183463413513 / 36028797018963968) 30 = (759982437118771 / 140737488355328)"
  "float_add 0 (759982437118771 / 140737488355328) = (759982437118771 / 140737488355328)"
  "float_div (759982437118771 / 140737488355328) 30 = (6485183463413513 / 36028797018963968)"
  "float_add (6554848520149401 / 17592186044416) 450 = (1808916530017075 / 2199023255552)"
  "float_div (1808916530017075 / 2199023255552) 69 = (6711342488179293 / 562949953421312)"
  "float_div (6711342488179293 / 562949953421312) 30 = (7158765320724579 / 18014398509481984)"
  "float_mul 30 (7158765320724579 / 18014398509481984) = (6711342488179293 / 562949953421312)"
  "float_add (6711342488179293 / 562949953421312) 0 = (6711342488179293 / 562949953421312)"
  "float_sub (6711342488179293 / 562949953421312) 0 = (6711342488179293 / 562949953421312)"
  "float_mul (6711342488179293 / 562949953421312) 30 = (6291883582668087 / 17592186044416)"
  "float_add (6291883582668087 / 17592186044416) 0 = (6291883582668087 / 17592186044416)"
  "float_div (6291883582668087 / 17592186044416) 900 = (7158765320724579 / 18014398509481984)"
  "float_mul (7158765320724579 / 18014398509481984) 30 = (6711342488179293 / 562949953421312)"
  "float_add 0 (6711342488179293 / 562949953421312) = (6711342488179293 / 562949953421312)"
  "float_sub (1379667190533325 / 2199023255552) (1379667190533325 / 2199023255552) = 0"
  "float_sub 500 0 = 500"
  "float_sub 50 50 = 0"
  "float_div 860 69 = (7016477680323599 / 562949953421312)"
  "float_sub 450 0 = 450"
  "float_div 0 (7016477680323599 / 562949953421312) = 0"
  "float_div (7342825479408417 / 1125899906842624) (7016477680323599 / 562949953421312) = (4713069377480751 / 9007199254740992)"
  "float_sub (7016477680323599 / 562949953421312) 0 = (7016477680323599 / 562949953421312)"
  "float_mul (7016477680323599 / 562949953421312) (4713069377480751 / 9007199254740992) = (7342825479408417 / 1125899906842624)"
  "float_mul (7016477680323599 / 562949953421312) (7016477680323599 / 562949953421312) = (170804200777805 / 1099511627776)"
  "float_add (170804200777805 / 1099511627776) 0 = (170804200777805 / 1099511627776)"
  "float_mul (7342825479408417 / 1125899906842624) (7016477680323599 / 562949953421312) = (2859977315349293 / 35184372088832)"
  "float_add (2859977315349293 / 35184372088832) 0 = (2859977315349293 / 35184372088832)"
  "float_div (2859977315349293 / 35184372088832) (170804200777805 / 1099511627776) = (294566836092547 / 562949953421312)"
  "float_mul (294566836092547 / 562949953421312) (7016477680323599 / 562949953421312) = (3671412739704209 / 562949953421312)"
  "float_add 0 (3671412739704209 / 562949953421312) = (3671412739704209 / 562949953421312)"
  "float_div (3671412739704209 / 562949953421312) (7016477680323599 / 562949953421312) = (294566836092547 / 562949953421312)"
  "float_mul (3671412739704209 / 562949953421312) 69 = (7916483719987201 / 17592186044416)"
  "float_div (7916483719987201 / 17592186044416) 69 = (3671412739704209 / 562949953421312)"
  "float_mul (7016477680323599 / 562949953421312) (294566836092547 / 562949953421312) = (3671412739704209 / 562949953421312)"
  "float_add (3671412739704209 / 562949953421312) 0 = (3671412739704209 / 562949953421312)"
  "float_sub 450 (7916483719987201 / 17592186044416) = (- (1 / 17592186044416))"
  "float_sub 450 (- (1 / 17592186044416)) = (7916483719987201 / 17592186044416)"
  "float_sub 500 (7916483719987201 / 17592186044416) = (879609302220799 / 17592186044416)"
  "float_div (879609302220799 / 17592186044416) 10 = (2814749767106557 / 562949953421312)"
  "float_div (- (1 / 17592186044416)) 10 = (- (3602879701896397 / 633825300114114700748351602688))"
  "float_sub (- (3602879701896397 / 633825300114114700748351602688)) (2814749767106557 / 562949953421312) = (- 5)"
  "float_sub (7916483719987201 / 17592186044416) 0 = (7916483719987201 / 17592186044416)"
  "float_div 0 (1559857926464637 / 70368744177664) = 0"
  "float_div (7342825479408417 / 1125899906842624) (1559857926464637 / 70368744177664) = (5300025331130699 / 18014398509481984)"
  "float_sub (1559857926464637 / 70368744177664) 0 = (1559857926464637 / 70368744177664)"
  "float_mul (1559857926464637 / 70368744177664) (5300025331130699 / 18014398509481984) = (3671412739704209 / 562949953421312)"
  "float_mul (1559857926464637 / 70368744177664) (1559857926464637 / 70368744177664) = (8644309271071495 / 17592186044416)"
  "float_add (8644309271071495 / 17592186044416) 0 = (8644309271071495 / 17592186044416)"
  "float_sub (3671412739704209 / 562949953421312) 0 = (3671412739704209 / 562949953421312)"
  "float_mul (3671412739704209 / 562949953421312) (1559857926464637 / 70368744177664) = (5086493238471643 / 35184372088832)"
  "float_add (5086493238471643 / 35184372088832) 0 = (5086493238471643 / 35184372088832)"
  "float_div (5086493238471643 / 35184372088832) (8644309271071495 / 17592186044416) = (1325006332782675 / 4503599627370496)"
  "float_mul (1325006332782675 / 4503599627370496) (1559857926464637 / 70368744177664) = (7342825479408419 / 1125899906842624)"
  "float_add 0 (7342825479408419 / 1125899906842624) = (7342825479408419 / 1125899906842624)"
  "float_div (7342825479408419 / 1125899906842624) (1559857926464637 / 70368744177664) = (1325006332782675 / 4503599627370496)"
  "float_mul (7342825479408419 / 1125899906842624) 69 = (3958241859993601 / 8796093022208)"
  "float_div (3958241859993601 / 8796093022208) 69 = (7342825479408419 / 1125899906842624)"
  "float_mul (1559857926464637 / 70368744177664) (1325006332782675 / 4503599627370496) = (7342825479408419 / 1125899906842624)"
  "float_add (7342825479408419 / 1125899906842624) 0 = (7342825479408419 / 1125899906842624)"
  "float_sub (7916483719987201 / 17592186044416) (3958241859993601 / 8796093022208) = (- (1 / 17592186044416))"
  "float_sub (7916483719987201 / 17592186044416) (- (1 / 17592186044416)) = (3958241859993601 / 8796093022208)"
  "float_sub 500 (3958241859993601 / 8796093022208) = (439804651110399 / 8796093022208)"
  "float_div (439804651110399 / 8796093022208) 10 = (5629499534213107 / 1125899906842624)"
  "float_sub (- (3602879701896397 / 633825300114114700748351602688)) (5629499534213107 / 1125899906842624) = (- (5629499534213113 / 1125899906842624))"
  by (simp_all add: fp_defs)

lemma MAX_fp: "MAX_TRAVERSIBLE_RANGE_fp = 450"
  by (simp add: MAX_TRAVERSIBLE_RANGE_fp_def RANGE_IN_MILES_def SAFETY_MARGIN_def fp_defs)

lemmas step_defs = find_next_best_fuel_station_fp_def MAX_fp segment_defs
  RANGE_IN_MILES_def MILES_PER_GALLON_def MILES_PER_DEGREE_def calculate_fuel_cost_def Let_def

lemma loop_fp_done:
  "\<not> cov < total_miles \<or> float_sub total_miles cov < MAX_TRAVERSIBLE_RANGE_fp \<Longrightarrow>
   fuel_stop_loop_fp dec fmt rl total_miles stations cp cov stops acc = Some (Inr (stops, acc))"
  by (subst fuel_stop_loop_fp.simps) auto

lemma loop_fp_step:
  "cov < total_miles \<Longrightarrow> \<not> float_sub total_miles cov < MAX_TRAVERSIBLE_RANGE_fp \<Longrightarrow>
   find_next_best_fuel_station_fp dec fmt rl total_miles cp cov (float_sub total_miles cov) stations
     = Inr (Some (s, pt)) \<Longrightarrow>
   fuel_stop_loop_fp dec fmt rl total_miles stations cp cov stops acc
     = fuel_stop_loop_fp dec fmt rl total_miles stations pt (distance_from_start s) (stops @ [s])
         (acc + cost s)"
  by (subst fuel_stop_loop_fp.simps) simp

subsection \<open>A stop that does not advance\<close>

lemma two_stations_found:
  "find_stations_along_route (listed_db two_stations) rl = [S_row, T_row]"
  by (simp add: find_stations_along_route_def listed_db_def two_stations_def station_row_def
        annotate_def SEARCH_RADIUS_IN_MILES_def S_row_def T_row_def fp_defs)

lemma first_step:
  "find_next_best_fuel_station_fp dec fmt (segment_line 30) 1000 (0, 0) 0 1000 [S_row, T_row]
     = Inr (Some
        (\<lparr> station = FuelStation_str fmt S_row,
            distance_from_start = 6554848520149401 / 17592186044416,
            coordinates = (0, 5.4),
            gallons_to_fill = 163871213003735 / 4398046511104,
            cost = dec (163871213003735 / 4398046511104) * 3 \<rparr>,
         (6079859496950169 / 1125899906842624, 0)))"
  by (simp add: step_defs S_row_def T_row_def fp_facts)

lemma repeated_step:
  "find_next_best_fuel_station_fp dec fmt (segment_line 30) 1000
       (6079859496950169 / 1125899906842624, 0) (6554848520149401 / 17592186044416)
       (float_sub 1000 (6554848520149401 / 17592186044416)) [S_row, T_row]
     = Inr (Some
        (\<lparr> station = FuelStation_str fmt S_row,
            distance_from_start = 6554848520149401 / 17592186044416,
            coordinates = (0, 5.4),
            gallons_to_fill = 0,
            cost = dec 0 * 3 \<rparr>,
         (6079859496950169 / 1125899906842624, 0)))"
  by (simp add: step_defs S_row_def T_row_def fp_facts)

lemma repeated_state_not_left:
  "fuel_stop_loop_fp dec fmt (segment_line 30) 1000 [S_row, T_row]
     (6079859496950169 / 1125899906842624, 0) (6554848520149401 / 17592186044416) stops acc
   \<noteq> Some r"
proof
  assume run: "fuel_stop_loop_fp dec fmt (segment_line 30) 1000 [S_row, T_row]
     (6079859496950169 / 1125899906842624, 0) (6554848520149401 / 17592186044416) stops acc
     = Some r"
  have "\<not> (segment_line 30 = segment_line 30 \<and> (1000 :: real) = 1000 \<and>
           [S_row, T_row] = [S_row, T_row] \<and>
           ((6079859496950169 / 1125899906842624, 0) :: point)
             = (6079859496950169 / 1125899906842624, 0) \<and>
           (6554848520149401 / 17592186044416 :: real) = 6554848520149401 / 17592186044416)"
  proof (rule fuel_stop_loop_fp.raw_induct[where P = "\<lambda>dec fmt rl total_miles stations cp cov
        stops acc r.
        \<not> (rl = segment_line 30 \<and> total_miles = 1000 \<and> stations = [S_row, T_row] \<and>
           cp = (6079859496950169 / 1125899906842624, 0) \<and>
           cov = 6554848520149401 / 17592186044416)", OF _ run])
    fix loop :: "(real \<Rightarrow> real) \<Rightarrow> formatting \<Rightarrow> line_string \<Rightarrow> real \<Rightarrow> AnnotatedStation list
       \<Rightarrow> point \<Rightarrow> real \<Rightarrow> FuelStop list \<Rightarrow> real
       \<Rightarrow> (py_error + FuelStop list \<times> real) option"
    fix dec fmt rl total_miles stations cp cov stops acc
    fix r :: "py_error + FuelStop list \<times> real"
    assume IH: "\<And>dec fmt rl total_miles stations cp cov stops acc r.
       loop dec fmt rl total_miles stations cp cov stops acc = Some r \<Longrightarrow>
       \<not> (rl = segment_line 30 \<and> total_miles = 1000 \<and> stations = [S_row, T_row] \<and>
           cp = (6079859496950169 / 1125899906842624, 0) \<and>
           cov = 6554848520149401 / 17592186044416)"
    assume body: "(if \<not> cov < total_miles
      then Some (Inr (stops, acc))
      else if float_sub total_miles cov < MAX_TRAVERSIBLE_RANGE_fp
      then Some (Inr (stops, acc))
      else
        case find_next_best_fuel_station_fp dec fmt rl total_miles cp
               cov (float_sub total_miles cov) stations of
          Inl e \<Rightarrow> Some (Inl e)
        | Inr None \<Rightarrow>
            Some (Inl (ValidationError ''Not enough fuel stations found along the route''))
        | Inr (Some (next_best_fuel_station, nearby_point_in_route)) \<Rightarrow>
            loop dec fmt rl total_miles stations
              nearby_point_in_route
              (distance_from_start next_best_fuel_station)
              (stops @ [next_best_fuel_station])
              (acc + cost next_best_fuel_station)) = Some r"
    show "\<not> (rl = segment_line 30 \<and> total_miles = 1000 \<and> stations = [S_row, T_row] \<and>
           cp = (6079859496950169 / 1125899906842624, 0) \<and>
           cov = 6554848520149401 / 17592186044416)"
    proof
      assume here: "rl = segment_line 30 \<and> total_miles = 1000 \<and> stations = [S_row, T_row] \<and>
           cp = (6079859496950169 / 1125899906842624, 0) \<and>
           cov = 6554848520149401 / 17592186044416"
      have far: "\<not> float_sub 1000 (6554848520149401 / 17592186044416) < MAX_TRAVERSIBLE_RANGE_fp"
        by (simp add: MAX_fp fp_facts)
      from body here far repeated_step[of dec fmt]
      have "loop dec fmt (segment_line 30) 1000 [S_row, T_row]
              (6079859496950169 / 1125899906842624, 0) (6554848520149401 / 17592186044416)
              (stops @ [\<lparr> station = FuelStation_str fmt S_row,
                  distance_from_start = 6554848520149401 / 17592186044416,
                  coordinates = (0, 5.4), gallons_to_fill = 0, cost = dec 0 * 3 \<rparr>])
              (acc + dec 0 * 3) = Some r"
        by simp
      from IH[OF this] show False by simp
    qed
  qed
  then show False by simp
qed

text \<open>
  Claim C5, on a route of 1000 miles along a line of 30 degrees, with the station \<open>S\<close> at
  the fraction 0.18 for 3.00 and the station \<open>T\<close> at the fraction 10 / 30 for 3.50. The
  claim says that the distances of the stops are strictly increasing and that the loop
  therefore ends. In double precision the first stop is \<open>S\<close> at the distance
  372.59999999999997; the point interpolated at that distance is located by the line at
  the fraction 0.17999999999999997, which is less than 0.18, so the next iteration selects
  \<open>S\<close> again, at the same distance and with the same point. The position does not
  advance, the same state recurs, and the planner never returns.
\<close>

theorem planner_never_returns:
  "find_optimal_fuel_stops_fp dec fmt (listed_db two_stations) (segment_router 1000 30) = None"
proof -
  have start: "find_optimal_fuel_stops_fp dec fmt (listed_db two_stations) (segment_router 1000 30)
      = fuel_stop_loop_fp dec fmt (segment_line 30) 1000 [S_row, T_row] (0, 0) 0 [] 0"
    by (simp add: find_optimal_fuel_stops_fp_def segment_router_def two_stations_found,
        simp add: segment_line_def segment_interpolate_def)
  have far: "\<not> float_sub 1000 0 < MAX_TRAVERSIBLE_RANGE_fp"
    by (simp add: MAX_fp fp_facts)
  have first: "find_next_best_fuel_station_fp dec fmt (segment_line 30) 1000 (0, 0) 0
      (float_sub 1000 0) [S_row, T_row]
     = Inr (Some
        (\<lparr> station = FuelStation_str fmt S_row,
            distance_from_start = 6554848520149401 / 17592186044416,
            coordinates = (0, 5.4),
            gallons_to_fill = 163871213003735 / 4398046511104,
            cost = dec (163871213003735 / 4398046511104) * 3 \<rparr>,
         (6079859496950169 / 1125899906842624, 0)))"
    using first_step[of dec fmt] by (simp add: fp_facts)
  have "fuel_stop_loop_fp dec fmt (segment_line 30) 1000 [S_row, T_row] (0, 0) 0 [] 0
     = fuel_stop_loop_fp dec fmt (segment_line 30) 1000 [S_row, T_row]
         (6079859496950169 / 1125899906842624, 0) (6554848520149401 / 17592186044416)
         ([] @ [\<lparr> station = FuelStation_str fmt S_row,
            distance_from_start = 6554848520149401 / 17592186044416,
            coordinates = (0, 5.4),
            gallons_to_fill = 163871213003735 / 4398046511104,
            cost = dec (163871213003735 / 4398046511104) * 3 \<rparr>])
         (0 + dec (163871213003735 / 4398046511104) * 3)"
    using loop_fp_step[OF _ far first, of "[]" 0] by simp
  with start repeated_state_not_left[of dec fmt] show ?thesis
    by (metis option.exhaust)
qed

subsection \<open>A stop past the end of the route\<close>

lemma far_station_found:
  "find_stations_along_route (listed_db far_station) rl = [far_row]"
  by (simp add: find_stations_along_route_def listed_db_def far_station_def station_row_def
        annotate_def SEARCH_RADIUS_IN_MILES_def far_row_def)

lemma far_step:
  "find_next_best_fuel_station_fp dec fmt (segment_line (7016477680323599 / 562949953421312))
       450 (0, 0) 0 450 [far_row]
     = Inr (Some
        (\<lparr> station = FuelStation_str fmt far_row,
            distance_from_start = 7916483719987201 / 17592186044416,
            coordinates = (0, 6.5),
            gallons_to_fill = - 5,
            cost = dec (- 5) * 3 \<rparr>,
         (3671412739704209 / 562949953421312, 0)))"
  by (simp add: step_defs far_row_def fp_facts)

text \<open>
  Claim C6, on a route of 450 miles along a line of \<open>860 / 69\<close> degrees with one station at
  the fraction 0.5232558139534884. The claim says that no stop lies further from the start
  than the route is long. In double precision the fraction of the target is
  0.5232558139534884 as well, so the station is in the window, and its distance from the
  start, \<open>(fraction * length) * 69\<close>, is 450.00000000000006: more than the 450 miles of
  the route.
\<close>

theorem stop_past_the_route_end:
  "find_optimal_fuel_stops_fp dec fmt (listed_db far_station) (segment_router 450 (float_div 860 69))
     = Some (Inr ([\<lparr> station = FuelStation_str fmt far_row,
                      distance_from_start = 7916483719987201 / 17592186044416,
                      coordinates = (0, 6.5),
                      gallons_to_fill = - 5,
                      cost = dec (- 5) * 3 \<rparr>],
                  dec (- 5) * 3)) \<and>
   total_distance (segment_router 450 (float_div 860 69)) < 7916483719987201 / 17592186044416"
proof -
  let ?len = "7016477680323599 / 562949953421312 :: real"
  have start: "find_optimal_fuel_stops_fp dec fmt (listed_db far_station)
        (segment_router 450 (float_div 860 69))
      = fuel_stop_loop_fp dec fmt (segment_line ?len) 450 [far_row] (0, 0) 0 [] 0"
    by (simp add: find_optimal_fuel_stops_fp_def segment_router_def far_station_found fp_facts,
        simp add: segment_line_def segment_interpolate_def)
  have far: "\<not> float_sub 450 0 < MAX_TRAVERSIBLE_RANGE_fp"
    by (simp add: MAX_fp fp_facts)
  have first: "find_next_best_fuel_station_fp dec fmt (segment_line ?len) 450 (0, 0) 0
      (float_sub 450 0) [far_row]
     = Inr (Some
        (\<lparr> station = FuelStation_str fmt far_row,
            distance_from_start = 7916483719987201 / 17592186044416,
            coordinates = (0, 6.5),
            gallons_to_fill = - 5,
            cost = dec (- 5) * 3 \<rparr>,
         (3671412739704209 / 562949953421312, 0)))"
    using far_step[of dec fmt] by (simp add: fp_facts)
  have "fuel_stop_loop_fp dec fmt (segment_line ?len) 450 [far_row] (0, 0) 0 [] 0
     = fuel_stop_loop_fp dec fmt (segment_line ?len) 450 [far_row]
         (3671412739704209 / 562949953421312, 0) (7916483719987201 / 17592186044416)
         ([] @ [\<lparr> station = FuelStation_str fmt far_row,
            distance_from_start = 7916483719987201 / 17592186044416,
            coordinates = (0, 6.5),
            gallons_to_fill = - 5,
            cost = dec (- 5) * 3 \<rparr>])
         (0 + dec (- 5) * 3)"
    using loop_fp_step[OF _ far first, of "[]" 0] by simp
  also have "\<dots> = Some (Inr ([\<lparr> station = FuelStation_str fmt far_row,
            distance_from_start = 7916483719987201 / 17592186044416,
            coordinates = (0, 6.5),
            gallons_to_fill = - 5,
            cost = dec (- 5) * 3 \<rparr>], dec (- 5) * 3))"
    by (subst loop_fp_done) simp_all
  finally show ?thesis using start by (simp add: segment_router_def)
qed

text \<open>
  The same on a route of 450.00000000000006 miles, where more than the safe range
  remains at the start: the stop is at the distance 450.0000000000001.
\<close>

lemma late_station_found:
  "find_stations_along_route (listed_db late_station) rl = [late_row]"
  by (simp add: find_stations_along_route_def listed_db_def late_station_def station_row_def
        annotate_def SEARCH_RADIUS_IN_MILES_def late_row_def)

lemma late_step:
  "find_next_best_fuel_station_fp dec fmt (segment_line (1559857926464637 / 70368744177664))
       (7916483719987201 / 17592186044416) (0, 0) 0 (7916483719987201 / 17592186044416)
       [late_row]
     = Inr (Some
        (\<lparr> station = FuelStation_str fmt late_row,
            distance_from_start = 3958241859993601 / 8796093022208,
            coordinates = (0, 6.5),
            gallons_to_fill = - (5629499534213113 / 1125899906842624),
            cost = dec (- (5629499534213113 / 1125899906842624)) * 3 \<rparr>,
         (7342825479408419 / 1125899906842624, 0)))"
  by (simp add: step_defs late_row_def fp_facts)

lemma late_stop_is_past_the_end:
  "find_optimal_fuel_stops_fp dec fmt (listed_db late_station)
       (segment_router (7916483719987201 / 17592186044416)
          (1559857926464637 / 70368744177664))
     = Some (Inr ([\<lparr> station = FuelStation_str fmt late_row,
                      distance_from_start = 3958241859993601 / 8796093022208,
                      coordinates = (0, 6.5),
                      gallons_to_fill = - (5629499534213113 / 1125899906842624),
                      cost = dec (- (5629499534213113 / 1125899906842624)) * 3 \<rparr>],
                  dec (- (5629499534213113 / 1125899906842624)) * 3)) \<and>
   (7916483719987201 / 17592186044416 :: real) < 3958241859993601 / 8796093022208"
proof -
  let ?len = "1559857926464637 / 70368744177664 :: real"
  let ?total = "7916483719987201 / 17592186044416 :: real"
  let ?stop = "\<lparr> station = FuelStation_str fmt late_row,
            distance_from_start = 3958241859993601 / 8796093022208,
            coordinates = (0, 6.5),
            gallons_to_fill = - (5629499534213113 / 1125899906842624),
            cost = dec (- (5629499534213113 / 1125899906842624)) * 3 \<rparr>"
  have start: "find_optimal_fuel_stops_fp dec fmt (listed_db late_station)
        (segment_router ?total ?len)
      = fuel_stop_loop_fp dec fmt (segment_line ?len) ?total [late_row] (0, 0) 0 [] 0"
    by (simp add: find_optimal_fuel_stops_fp_def segment_router_def late_station_found,
        simp add: segment_line_def segment_interpolate_def)
  have far: "\<not> float_sub ?total 0 < MAX_TRAVERSIBLE_RANGE_fp"
    by (simp add: MAX_fp fp_facts)
  have first: "find_next_best_fuel_station_fp dec fmt (segment_line ?len) ?total (0, 0) 0
      (float_sub ?total 0) [late_row]
     = Inr (Some (?stop, (7342825479408419 / 1125899906842624, 0)))"
    using late_step[of dec fmt] by (simp add: fp_facts)
  have "fuel_stop_loop_fp dec fmt (segment_line ?len) ?total [late_row] (0, 0) 0 [] 0
     = fuel_stop_loop_fp dec fmt (segment_line ?len) ?total [late_row]
         (7342825479408419 / 1125899906842624, 0) (3958241859993601 / 8796093022208)
         ([] @ [?stop]) (0 + dec (- (5629499534213113 / 1125899906842624)) * 3)"
    using loop_fp_step[OF _ far first, of "[]" 0] by simp
  also have "\<dots> = Some (Inr ([?stop], dec (- (5629499534213113 / 1125899906842624)) * 3))"
    by (subst loop_fp_done) simp_all
  finally show ?thesis using start by simp
qed

end
